theory Spec2Isabelle
  imports Complex_Main
begin

section \<open>JavaScript values\<close>

text \<open>
  The components exchange untyped data (\<^verbatim>\<open>any\<close>): parsed JSON plus the value
  \<^verbatim>\<open>undefined\<close> that a missing property reads as. An object is the list of its own
  properties; a JSON number is the number it denotes.
\<close>

datatype js =
    JUndefined
  | JNull
  | JBool bool
  | JNum real
  | JStr string
  | JArr "js list"
  | JObj "(string \<times> js) list"

text \<open>\<^verbatim>\<open>!!v\<close>: the falsy values are undefined, null, false, 0 and the empty string.\<close>

fun truthy :: "js \<Rightarrow> bool" where
  "truthy JUndefined = False"
| "truthy JNull = False"
| "truthy (JBool b) = b"
| "truthy (JNum x) = (x \<noteq> 0)"
| "truthy (JStr s) = (s \<noteq> [])"
| "truthy (JArr xs) = True"
| "truthy (JObj kvs) = True"

text \<open>\<^verbatim>\<open>a || b\<close> on values.\<close>

definition js_or :: "js \<Rightarrow> js \<Rightarrow> js" where
  "js_or a b = (if truthy a then a else b)"

section \<open>Dashboard: the workflow controller\<close>

datatype step = Dashboard | Upload | Analyze | Generate | Scoring | Final

text \<open>The browser's \<^verbatim>\<open>File\<close>: its \<^verbatim>\<open>name\<close>, \<^verbatim>\<open>size\<close> and \<^verbatim>\<open>type\<close>.\<close>

record File =
  file_name :: string
  file_size :: nat
  file_type :: string

text \<open>\<^verbatim>\<open>interface SavedData\<close>; \<^verbatim>\<open>null\<close> is \<open>None\<close> for the file and \<open>JNull\<close> for data.\<close>

record saved_data =
  resume :: "File option"
  resumeData :: js
  jobAnalysis :: js
  coverLetter :: string
  matchingResults :: js

record dashboard =
  currentStep :: step
  resumeUploaded :: bool
  jobAnalyzed :: bool
  letterGenerated :: bool
  scoringCompleted :: bool
  isCoverLetterEditing :: bool
  hasUnsavedCoverLetterChanges :: bool
  savedData :: saved_data

text \<open>
  \<^verbatim>\<open>handleJobAnalysis\<close>. The state setters of one handler are applied in the order they
  are called; \<^verbatim>\<open>setSavedData(prev => ...)\<close> updates the value left by the setter before it.
\<close>

definition handleJobAnalysis :: "js \<Rightarrow> dashboard \<Rightarrow> dashboard" where
  "handleJobAnalysis analysisData s =
     (let s1 = s\<lparr>savedData := (savedData s)\<lparr>jobAnalysis := analysisData\<rparr>\<rparr>
      in if analysisData = JNull
         then s1\<lparr>jobAnalyzed := False,
                 letterGenerated := False,
                 scoringCompleted := False,
                 savedData := (savedData s1)\<lparr>jobAnalysis := JNull,
                                              coverLetter := [],
                                              matchingResults := JNull\<rparr>\<rparr>
         else s1\<lparr>jobAnalyzed := True\<rparr>)"

definition canProceedToNext :: "dashboard \<Rightarrow> bool" where
  "canProceedToNext s =
     (case currentStep s of
        Dashboard \<Rightarrow> False
      | Upload \<Rightarrow> resumeUploaded s
      | Analyze \<Rightarrow> jobAnalyzed s
      | Generate \<Rightarrow> letterGenerated s \<and> \<not> isCoverLetterEditing s
                      \<and> \<not> hasUnsavedCoverLetterChanges s
      | Scoring \<Rightarrow> scoringCompleted s
      | Final \<Rightarrow> False)"

definition editing_dashboard :: dashboard where
  "editing_dashboard =
     \<lparr>currentStep = Generate, resumeUploaded = True, jobAnalyzed = True,
      letterGenerated = True, scoringCompleted = False, isCoverLetterEditing = True,
      hasUnsavedCoverLetterChanges = False,
      savedData = \<lparr>resume = None, resumeData = JObj [], jobAnalysis = JObj [],
                   coverLetter = ''Dear team'', matchingResults = JNull\<rparr>\<rparr>"

definition fresh_dashboard :: "step \<Rightarrow> dashboard" where
  "fresh_dashboard st =
     \<lparr>currentStep = st, resumeUploaded = False, jobAnalyzed = False,
      letterGenerated = False, scoringCompleted = False, isCoverLetterEditing = False,
      hasUnsavedCoverLetterChanges = False,
      savedData = \<lparr>resume = None, resumeData = JNull, jobAnalysis = JNull,
                   coverLetter = [], matchingResults = JNull\<rparr>\<rparr>"

section \<open>Strings\<close>

text \<open>
  A string is a list of 8-bit characters. It stands for a JavaScript string of ASCII
  characters, for which bytes, UTF-16 code units and characters are the same. The
  functions below are the string methods the code calls, as they act on such strings:
  no extension, MIME type, domain or path pattern compared here has a character outside
  ASCII.
\<close>

definition lower_char :: "char \<Rightarrow> char" where
  "lower_char c =
     (case map_of (zip ''ABCDEFGHIJKLMNOPQRSTUVWXYZ'' ''abcdefghijklmnopqrstuvwxyz'') c of
        None \<Rightarrow> c
      | Some d \<Rightarrow> d)"

definition toLowerCase :: "string \<Rightarrow> string" where
  "toLowerCase s = map lower_char s"

text \<open>White space removed by \<^verbatim>\<open>trim\<close>: tab, line feed, vertical tab, form feed, carriage return, space.\<close>

definition is_space :: "char \<Rightarrow> bool" where
  "is_space c = (c \<in> set [CHR 0x09, CHR 0x0A, CHR 0x0B, CHR 0x0C, CHR 0x0D, CHR 0x20])"

definition trim :: "string \<Rightarrow> string" where
  "trim s = rev (dropWhile is_space (rev (dropWhile is_space s)))"

definition startsWith :: "string \<Rightarrow> string \<Rightarrow> bool" where
  "startsWith s p = (take (length p) s = p)"

definition endsWith :: "string \<Rightarrow> string \<Rightarrow> bool" where
  "endsWith s p = (length p \<le> length s \<and> drop (length s - length p) s = p)"

text \<open>\<^verbatim>\<open>s.split(d)\<close> for a one-character separator: never empty, \<^verbatim>\<open>''.split('.')\<close> is \<^verbatim>\<open>['']\<close>.\<close>

fun split_on :: "char \<Rightarrow> string \<Rightarrow> string list" where
  "split_on d [] = [[]]"
| "split_on d (c # cs) =
     (if c = d then [] # split_on d cs
      else (case split_on d cs of
              [] \<Rightarrow> [[c]]
            | w # ws \<Rightarrow> (c # w) # ws))"

section \<open>ResumeUpload: validation of the file\<close>

text \<open>The result objects \<^verbatim>\<open>{ isValid, error?, detectedSite? }\<close>; an absent property is \<open>None\<close>.\<close>

record 'e validation =
  isValid :: bool
  error :: "'e option"
  detectedSite :: "string option"

definition MAX_FILE_SIZE :: nat where
  "MAX_FILE_SIZE = 10 * 1024 * 1024"

definition ALLOWED_TYPES :: "string list" where
  "ALLOWED_TYPES =
     [''application/pdf'',
      ''application/vnd.openxmlformats-officedocument.wordprocessingml.document'']"

definition ALLOWED_EXTENSIONS :: "string list" where
  "ALLOWED_EXTENSIONS = [''.pdf'', ''.docx'']"

text \<open>
  The three messages of \<^verbatim>\<open>validateFile\<close>: the file is too large (the text gives the
  maximum in MB), the type is not supported, the extension is not supported.
\<close>

datatype upload_error = FileTooLarge nat | UnsupportedType | UnsupportedExtension

definition fileExtension :: "File \<Rightarrow> string" where
  "fileExtension f = ''.'' @ toLowerCase (last (split_on (CHR ''.'') (file_name f)))"

definition validateFile :: "File \<Rightarrow> upload_error validation" where
  "validateFile f =
     (if file_size f > MAX_FILE_SIZE
      then \<lparr>isValid = False,
            error = Some (FileTooLarge (MAX_FILE_SIZE div 1024 div 1024)),
            detectedSite = None\<rparr>
      else if file_type f \<notin> set ALLOWED_TYPES
      then \<lparr>isValid = False, error = Some UnsupportedType, detectedSite = None\<rparr>
      else if fileExtension f \<notin> set ALLOWED_EXTENSIONS
      then \<lparr>isValid = False, error = Some UnsupportedExtension, detectedSite = None\<rparr>
      else \<lparr>isValid = True, error = None, detectedSite = None\<rparr>)"

text \<open>
  The upload constraints in the words of the specification. The extension matches the
  MIME type when a PDF is named \<^verbatim>\<open>.pdf\<close> and a Word document \<^verbatim>\<open>.docx\<close>; the control
  and path-breaking characters are those of \<^verbatim>\<open>dangerousChars\<close> in the upload function
  of the server, \<^verbatim>\<open>/[<>:"/\\|?*\x00-\x1f]/\<close>.
\<close>

definition spec_extension_matches_type :: "File \<Rightarrow> bool" where
  "spec_extension_matches_type f =
     ((file_type f = ''application/pdf'' \<and> fileExtension f = ''.pdf'')
      \<or> (file_type f = ''application/vnd.openxmlformats-officedocument.wordprocessingml.document''
          \<and> fileExtension f = ''.docx''))"

definition dangerous_char :: "char \<Rightarrow> bool" where
  "dangerous_char c =
     (c \<in> set [CHR ''<'', CHR ''>'', CHR '':'', CHR 0x22, CHR ''/'', CHR 0x5C, CHR ''|'',
               CHR ''?'', CHR ''*'']
      \<or> (of_char c :: nat) < 32)"

definition spec_upload_constraints :: "File \<Rightarrow> bool" where
  "spec_upload_constraints f =
     (file_size f \<le> 10 * 1024 * 1024
      \<and> file_type f \<in> set ALLOWED_TYPES
      \<and> spec_extension_matches_type f
      \<and> \<not> list_ex dangerous_char (file_name f))"

definition mismatched_file :: File where
  "mismatched_file = \<lparr>file_name = ''cv.docx'', file_size = 1, file_type = ''application/pdf''\<rparr>"

definition piped_file :: File where
  "piped_file = \<lparr>file_name = ''a|b.pdf'', file_size = 1, file_type = ''application/pdf''\<rparr>"

definition large_file :: File where
  "large_file =
     \<lparr>file_name = ''cv.pdf'', file_size = 10485761, file_type = ''application/pdf''\<rparr>"

definition text_file :: File where
  "text_file = \<lparr>file_name = ''cv.pdf'', file_size = 1, file_type = ''text/plain''\<rparr>"

definition misnamed_file :: File where
  "misnamed_file = \<lparr>file_name = ''cv.txt'', file_size = 1, file_type = ''application/pdf''\<rparr>"

definition good_file :: File where
  "good_file =
     \<lparr>file_name = ''My.CV.PDF'', file_size = 10485760, file_type = ''application/pdf''\<rparr>"

section \<open>JobAnalysis: validation of the vacancy URL\<close>

text \<open>
  The path patterns are regular expressions made of literal text and \<^verbatim>\<open>\d+\<close>; none is
  anchored, so \<^verbatim>\<open>pattern.test(path)\<close> looks for a match starting anywhere in the path.
\<close>

datatype atom = Lit string | Digits

definition is_digit :: "char \<Rightarrow> bool" where
  "is_digit c = (c \<in> set ''0123456789'')"

fun match_here :: "atom list \<Rightarrow> string \<Rightarrow> bool" where
  "match_here [] s = True"
| "match_here (Lit l # r) s = (startsWith s l \<and> match_here r (drop (length l) s))"
| "match_here (Digits # r) [] = False"
| "match_here (Digits # r) (c # cs) =
     (is_digit c \<and> (match_here r cs \<or> match_here (Digits # r) cs))"

fun test :: "atom list \<Rightarrow> string \<Rightarrow> bool" where
  "test r [] = match_here r []"
| "test r (c # cs) = (match_here r (c # cs) \<or> test r cs)"

record site =
  domains :: "string list"
  name :: string
  pathPattern :: "atom list"

definition supportedSites :: "site list" where
  "supportedSites =
     [\<lparr>domains = [''hh.ru'', ''hh.kz'', ''hh.by'', ''hh.uz'', ''hh.kg''],
       name = ''HeadHunter'', pathPattern = [Lit ''/vacancy/'', Digits]\<rparr>,
      \<lparr>domains = [''linkedin.com'', ''www.linkedin.com''],
       name = ''LinkedIn'', pathPattern = [Lit ''/jobs/view/'', Digits]\<rparr>,
      \<lparr>domains = [''djinni.co'', ''www.djinni.co''],
       name = ''Djinni'', pathPattern = [Lit ''/jobs/'', Digits]\<rparr>,
      \<lparr>domains = [''career.habr.com''],
       name = ''Habr Career'', pathPattern = [Lit ''/vacancies/'', Digits]\<rparr>,
      \<lparr>domains = [''superjob.ru'', ''www.superjob.ru''],
       name = ''SuperJob'', pathPattern = [Lit ''/vakansii/'']\<rparr>,
      \<lparr>domains = [''work.ua'', ''www.work.ua''],
       name = ''Work.ua'', pathPattern = [Lit ''/jobs/'', Digits]\<rparr>,
      \<lparr>domains = [''rabota.ua'', ''www.rabota.ua''],
       name = ''Rabota.ua'',
       pathPattern = [Lit ''/company'', Digits, Lit ''/vacancy'', Digits]\<rparr>,
      \<lparr>domains = [''jobs.ua'', ''www.jobs.ua''],
       name = ''Jobs.ua'', pathPattern = [Lit ''/vacancy/'']\<rparr>]"

text \<open>What the code reads of a parsed \<^verbatim>\<open>URL\<close>.\<close>

record URL =
  protocol :: string
  hostname :: string
  pathname :: string

text \<open>
  The messages of \<^verbatim>\<open>validateJobUrl\<close>: no URL was entered; the URL does not parse; the
  site (the text quotes the host name) is not supported; the link has the wrong form for
  the site (the text gives the name of the site); the protocol is neither HTTP nor HTTPS.
\<close>

datatype url_error =
    EmptyUrl
  | MalformedUrl
  | UnsupportedSite string
  | WrongPath string
  | WrongProtocol

definition hostMatches :: "string \<Rightarrow> site \<Rightarrow> bool" where
  "hostMatches h st = list_ex (\<lambda>domain. h = domain \<or> endsWith h (''.'' @ domain)) (domains st)"

definition matchedSite :: "string \<Rightarrow> site option" where
  "matchedSite h = find (hostMatches h) supportedSites"

definition urlToCheck :: "string \<Rightarrow> string" where
  "urlToCheck trimmedUrl =
     (if startsWith trimmedUrl ''http'' then trimmedUrl else ''https://'' @ trimmedUrl)"

text \<open>
  \<^verbatim>\<open>validateJobUrl\<close>. The constructor \<^verbatim>\<open>new URL\<close> of the platform is the parameter
  \<open>URLctor\<close>; it gives \<open>None\<close> where the constructor throws.
\<close>

definition validateJobUrl :: "(string \<Rightarrow> URL option) \<Rightarrow> string \<Rightarrow> url_error validation" where
  "validateJobUrl URLctor url =
     (if url = [] \<or> length (trim url) = 0
      then \<lparr>isValid = False, error = Some EmptyUrl, detectedSite = None\<rparr>
      else
        (case URLctor (urlToCheck (trim url)) of
           None \<Rightarrow> \<lparr>isValid = False, error = Some MalformedUrl, detectedSite = None\<rparr>
         | Some parsedUrl \<Rightarrow>
             (case matchedSite (toLowerCase (hostname parsedUrl)) of
                None \<Rightarrow>
                  \<lparr>isValid = False,
                   error = Some (UnsupportedSite (toLowerCase (hostname parsedUrl))),
                   detectedSite = None\<rparr>
              | Some st \<Rightarrow>
                  if \<not> test (pathPattern st) (pathname parsedUrl)
                  then \<lparr>isValid = False, error = Some (WrongPath (name st)),
                        detectedSite = None\<rparr>
                  else if protocol parsedUrl \<noteq> ''https:'' \<and> protocol parsedUrl \<noteq> ''http:''
                  then \<lparr>isValid = False, error = Some WrongProtocol, detectedSite = None\<rparr>
                  else \<lparr>isValid = True, error = None, detectedSite = Some (name st)\<rparr>)))"

text \<open>Sample inputs, each with the components the platform parses it into.\<close>

definition HeadHunter :: site where
  "HeadHunter =
     \<lparr>domains = [''hh.ru'', ''hh.kz'', ''hh.by'', ''hh.uz'', ''hh.kg''],
      name = ''HeadHunter'', pathPattern = [Lit ''/vacancy/'', Digits]\<rparr>"

definition httpx_url :: string where
  "httpx_url = ''httpx://hh.ru/vacancy/1''"

definition httpx_parts :: URL where
  "httpx_parts = \<lparr>protocol = ''httpx:'', hostname = ''hh.ru'', pathname = ''/vacancy/1''\<rparr>"

definition headhunter_url :: string where
  "headhunter_url = ''  HH.ru/vacancy/123456 ''"

definition headhunter_parts :: URL where
  "headhunter_parts =
     \<lparr>protocol = ''https:'', hostname = ''hh.ru'', pathname = ''/vacancy/123456''\<rparr>"

definition employer_url :: string where
  "employer_url = ''https://spb.hh.ru/employer/77''"

definition employer_parts :: URL where
  "employer_parts =
     \<lparr>protocol = ''https:'', hostname = ''spb.hh.ru'', pathname = ''/employer/77''\<rparr>"

definition other_url :: string where
  "other_url = ''http://example.com/vacancy/1''"

definition other_parts :: URL where
  "other_parts = \<lparr>protocol = ''http:'', hostname = ''example.com'', pathname = ''/vacancy/1''\<rparr>"

definition sample_URL :: "string \<Rightarrow> URL option" where
  "sample_URL =
     map_of [(httpx_url, httpx_parts),
             (''https://HH.ru/vacancy/123456'', headhunter_parts),
             (employer_url, employer_parts),
             (other_url, other_parts)]"

section \<open>Reading properties\<close>

text \<open>
  A thrown object, with its \<^verbatim>\<open>name\<close> and its \<^verbatim>\<open>message\<close>. An evaluation that may throw has
  a result of type \<open>exn + 'a\<close>, with \<open>Inl\<close> for the exception.
\<close>

datatype exn = Exn string string

fun exn_name :: "exn \<Rightarrow> string" where
  "exn_name (Exn n m) = n"

fun exn_message :: "exn \<Rightarrow> string" where
  "exn_message (Exn n m) = m"

definition andThen :: "'e + 'a \<Rightarrow> ('a \<Rightarrow> 'e + 'b) \<Rightarrow> 'e + 'b" where
  "andThen m f = (case m of Inl e \<Rightarrow> Inl e | Inr v \<Rightarrow> f v)"

definition nullish :: "js \<Rightarrow> bool" where
  "nullish v = (v = JUndefined \<or> v = JNull)"

definition lookup :: "(string \<times> js) list \<Rightarrow> string \<Rightarrow> js" where
  "lookup kvs k = (case map_of kvs k of None \<Rightarrow> JUndefined | Some v \<Rightarrow> v)"

text \<open>
  \<^verbatim>\<open>v[k]\<close> for a value that is neither null nor undefined. The keys the code reads are
  names of data fields, none of them a built-in property of strings, numbers, booleans
  or arrays, so only an object can have them.
\<close>

fun member_of :: "js \<Rightarrow> string \<Rightarrow> js" where
  "member_of (JObj kvs) k = lookup kvs k"
| "member_of v k = JUndefined"

text \<open>\<^verbatim>\<open>v.k\<close> and \<^verbatim>\<open>v[k]\<close>: a TypeError on null and undefined.\<close>

definition cannot_read :: "js \<Rightarrow> string \<Rightarrow> exn" where
  "cannot_read v k =
     Exn ''TypeError''
       (''Cannot read properties of '' @ (if v = JNull then ''null'' else ''undefined'')
        @ '' (reading '' @ [CHR 0x27] @ k @ [CHR 0x27] @ '')'')"

definition get :: "js \<Rightarrow> string \<Rightarrow> exn + js" where
  "get v k = (if nullish v then Inl (cannot_read v k) else Inr (member_of v k))"

text \<open>\<^verbatim>\<open>v?.k\<close>: undefined on null and undefined, the property otherwise.\<close>

definition optc :: "js \<Rightarrow> string \<Rightarrow> exn + js" where
  "optc v k = (if nullish v then Inr JUndefined else get v k)"

text \<open>\<^verbatim>\<open>v?.k1?.k2\<close>.\<close>

definition optc2 :: "js \<Rightarrow> string \<Rightarrow> string \<Rightarrow> exn + js" where
  "optc2 v k1 k2 = andThen (optc v k1) (\<lambda>x. optc x k2)"

text \<open>\<^verbatim>\<open>a || b\<close>: \<open>b\<close> is evaluated only when \<open>a\<close> is falsy.\<close>

definition or_else :: "exn + js \<Rightarrow> exn + js \<Rightarrow> exn + js" where
  "or_else a b = andThen a (\<lambda>v. if truthy v then Inr v else b)"

definition isArray :: "js \<Rightarrow> bool" where
  "isArray v = (case v of JArr xs \<Rightarrow> True | _ \<Rightarrow> False)"

text \<open>\<^verbatim>\<open>typeof v\<close>.\<close>

fun typeof :: "js \<Rightarrow> string" where
  "typeof JUndefined = ''undefined''"
| "typeof JNull = ''object''"
| "typeof (JBool b) = ''boolean''"
| "typeof (JNum x) = ''number''"
| "typeof (JStr s) = ''string''"
| "typeof (JArr xs) = ''object''"
| "typeof (JObj kvs) = ''object''"

text \<open>\<^verbatim>\<open>v.trim()\<close>: a method of strings only.\<close>

definition call_trim :: "js \<Rightarrow> exn + js" where
  "call_trim v =
     (case v of
        JStr s \<Rightarrow> Inr (JStr (trim s))
      | JUndefined \<Rightarrow> Inl (cannot_read v ''trim'')
      | JNull \<Rightarrow> Inl (cannot_read v ''trim'')
      | _ \<Rightarrow> Inl (Exn ''TypeError'' ''trim is not a function''))"

text \<open>\<^verbatim>\<open>v.length\<close>, for a value that is neither null nor undefined.\<close>

definition length_of :: "js \<Rightarrow> js" where
  "length_of v =
     (case v of
        JArr xs \<Rightarrow> JNum (real (length xs))
      | JStr s \<Rightarrow> JNum (real (length s))
      | JObj kvs \<Rightarrow> lookup kvs ''length''
      | _ \<Rightarrow> JUndefined)"

definition get_length :: "js \<Rightarrow> exn + js" where
  "get_length v = (if nullish v then Inl (cannot_read v ''length'') else Inr (length_of v))"

text \<open>The elements \<^verbatim>\<open>[...v]\<close> spreads: those of an array, the characters of a string.\<close>

definition iterate :: "js \<Rightarrow> exn + js list" where
  "iterate v =
     (case v of
        JArr xs \<Rightarrow> Inr xs
      | JStr s \<Rightarrow> Inr (map (\<lambda>c. JStr [c]) s)
      | _ \<Rightarrow> Inl (Exn ''TypeError'' ''value is not iterable''))"

section \<open>ResumeUpload: the data shown after parsing\<close>

definition extractDisplayData :: "js \<Rightarrow> exn + js" where
  "extractDisplayData rawData =
     andThen (or_else (optc rawData ''desired_position'')
             (or_else (optc rawData ''desiredPosition'') (Inr (JStr [])))) (\<lambda>desired_position.
     andThen (or_else (optc2 rawData ''personal_info'' ''first_name'')
             (or_else (optc2 rawData ''personalInfo'' ''first_name'')
             (or_else (optc rawData ''first_name'')
             (or_else (optc rawData ''firstName'') (Inr (JStr [])))))) (\<lambda>first_name.
     andThen (or_else (optc2 rawData ''personal_info'' ''last_name'')
             (or_else (optc2 rawData ''personalInfo'' ''last_name'')
             (or_else (optc rawData ''last_name'')
             (or_else (optc rawData ''lastName'') (Inr (JStr [])))))) (\<lambda>last_name.
     andThen (or_else (optc2 rawData ''skills'' ''hard_skills'')
             (or_else (optc2 rawData ''skills'' ''hardSkills'')
             (or_else (optc rawData ''hardSkills'') (Inr (JArr []))))) (\<lambda>hard_skills.
     andThen (or_else (optc2 rawData ''skills'' ''soft_skills'')
             (or_else (optc2 rawData ''skills'' ''softSkills'')
             (or_else (optc rawData ''softSkills'') (Inr (JArr []))))) (\<lambda>soft_skills.
     andThen (or_else (optc2 rawData ''skills'' ''languages'')
             (or_else (optc rawData ''languages'') (Inr (JArr [])))) (\<lambda>languages.
     andThen (or_else (optc rawData ''summary'')
             (or_else (optc rawData ''description'') (Inr (JStr [])))) (\<lambda>summary.
     Inr (JObj
       [(''desired_position'', desired_position),
        (''personal_info'', JObj [(''first_name'', first_name), (''last_name'', last_name)]),
        (''skills'', JObj [(''hard_skills'', hard_skills), (''soft_skills'', soft_skills),
                          (''languages'', languages)]),
        (''summary'', summary)]))))))))"

text \<open>
  The extraction, said declaratively: a field is read along candidate paths in order of
  priority, a path reads as undefined as soon as a value on it is null or undefined,
  and the field is the first candidate that is truthy, or its default when none is.
\<close>

fun at_path :: "js \<Rightarrow> string list \<Rightarrow> js" where
  "at_path v [] = v"
| "at_path v (k # ks) = (if nullish v then JUndefined else at_path (member_of v k) ks)"

fun first_truthy :: "js list \<Rightarrow> js \<Rightarrow> js" where
  "first_truthy [] d = d"
| "first_truthy (c # cs) d = (if truthy c then c else first_truthy cs d)"

definition resolve :: "js \<Rightarrow> string list list \<Rightarrow> js \<Rightarrow> js" where
  "resolve rawData paths d = first_truthy (map (at_path rawData) paths) d"

definition display_of :: "js \<Rightarrow> js" where
  "display_of rawData =
     JObj
       [(''desired_position'',
           resolve rawData [[''desired_position''], [''desiredPosition'']] (JStr [])),
        (''personal_info'', JObj
          [(''first_name'',
              resolve rawData
                [[''personal_info'', ''first_name''], [''personalInfo'', ''first_name''],
                 [''first_name''], [''firstName'']] (JStr [])),
           (''last_name'',
              resolve rawData
                [[''personal_info'', ''last_name''], [''personalInfo'', ''last_name''],
                 [''last_name''], [''lastName'']] (JStr []))]),
        (''skills'', JObj
          [(''hard_skills'',
              resolve rawData
                [[''skills'', ''hard_skills''], [''skills'', ''hardSkills''], [''hardSkills'']]
                (JArr [])),
           (''soft_skills'',
              resolve rawData
                [[''skills'', ''soft_skills''], [''skills'', ''softSkills''], [''softSkills'']]
                (JArr [])),
           (''languages'',
              resolve rawData [[''skills'', ''languages''], [''languages'']] (JArr []))]),
        (''summary'', resolve rawData [[''summary''], [''description'']] (JStr []))]"

text \<open>The parser response of the scenario, and one that has only a name, in camel case.\<close>

definition bob_response :: js where
  "bob_response = JObj [(''firstName'', JStr ''Bob'')]"


definition anna_response :: js where
  "anna_response =
     JObj [(''personal_info'', JObj [(''first_name'', JStr ''Anna'')]),
           (''skills'', JObj [(''hardSkills'', JArr [JStr ''Go''])])]"

section \<open>MatchingResults: the scoring request\<close>

text \<open>\<^verbatim>\<open>s.includes(sub)\<close>.\<close>

definition str_includes :: "string \<Rightarrow> string \<Rightarrow> bool" where
  "str_includes s sub = test [Lit sub] s"

text \<open>
  The messages \<^verbatim>\<open>validateScoringData\<close> collects: the resume is absent, it has no first
  name, no last name, no skills, only blank skills; the vacancy is absent, it has no
  title, no company; the user identifier is absent, or shorter than three characters.
\<close>

datatype input_error =
    NoResume | NoFirstName | NoLastName | NoSkills | BlankSkills
  | NoJob | NoJobTitle | NoCompany | NoUserId | ShortUserId

text \<open>
  What the code reads of the \<^verbatim>\<open>Response\<close> of \<^verbatim>\<open>fetch\<close>: \<^verbatim>\<open>ok\<close>, \<^verbatim>\<open>status\<close>,
  \<^verbatim>\<open>statusText\<close>, and what \<^verbatim>\<open>json()\<close> and \<^verbatim>\<open>text()\<close> resolve to or reject with.
\<close>

record response =
  resp_ok :: bool
  resp_status :: nat
  resp_statusText :: string
  resp_json :: "exn + js"
  resp_text :: "exn + string"

datatype fetch_outcome = Rejected exn | Resolved response

text \<open>
  The text of the error for a response that is not ok: the status line, or the
  \<^verbatim>\<open>error\<close> or \<^verbatim>\<open>message\<close> of the JSON body, or the body as text.
\<close>

datatype http_message = StatusLine nat string | FromBody js | FromText string

text \<open>
  The errors \<^verbatim>\<open>performScoringAnalysis\<close> ends with. \<open>InputInvalid\<close> lists the messages of
  the input validation; \<open>NotAnObject\<close> says that the response is not an object;
  \<open>MissingField p\<close> says that the response lacks the required field, and its text ends
  with the path \<open>p\<close>; \<open>BadBreakdown\<close> is the fixed text saying that the structure of the
  field \<^verbatim>\<open>breakdown\<close> is wrong; \<open>NetworkError\<close> and \<open>ParseError\<close> are the two texts of the
  catch clause; \<open>Uncaught e\<close> is any other exception, thrown on as it is.
\<close>

datatype scoring_error =
    InputInvalid "input_error list"
  | HttpFailure http_message
  | NotAnObject
  | MissingField string
  | BadBreakdown
  | NetworkError
  | ParseError
  | Uncaught exn

text \<open>The catch clause, for an exception that is not one of the function's own errors.\<close>

definition scoring_catch :: "exn \<Rightarrow> scoring_error" where
  "scoring_catch e =
     (if exn_name e = ''TypeError'' \<and> str_includes (exn_message e) ''fetch'' then NetworkError
      else if exn_name e = ''SyntaxError'' then ParseError
      else Uncaught e)"

text \<open>The branch \<^verbatim>\<open>if (!response.ok)\<close>, which always throws.\<close>

definition http_error_text :: "response \<Rightarrow> scoring_error" where
  "http_error_text r =
     (case resp_text r of
        Inl e \<Rightarrow> scoring_catch e
      | Inr errorText \<Rightarrow>
          if errorText \<noteq> [] then HttpFailure (FromText errorText)
          else HttpFailure (StatusLine (resp_status r) (resp_statusText r)))"

definition http_error :: "response \<Rightarrow> scoring_error" where
  "http_error r =
     (case resp_json r of
        Inl parseError \<Rightarrow> http_error_text r
      | Inr errorData \<Rightarrow>
          (case or_else (get errorData ''error'') (get errorData ''message'') of
             Inl parseError \<Rightarrow> http_error_text r
           | Inr m \<Rightarrow>
               if truthy m then HttpFailure (FromBody m)
               else HttpFailure (StatusLine (resp_status r) (resp_statusText r))))"

definition requiredFields :: "string list" where
  "requiredFields =
     [''total_score'', ''breakdown'', ''recommendation'', ''recruiter_recommendation'',
      ''candidate_recommendation'']"

definition breakdownFields :: "string list" where
  "breakdownFields = [''hard_skills'', ''soft_skills'', ''experience_match'', ''position_match'']"

definition itemFields :: "string list" where
  "itemFields = [''score'', ''summary'', ''description'']"

text \<open>The loop over \<^verbatim>\<open>requiredFields\<close>: the first field that reads as undefined is reported.\<close>

fun check_required :: "js \<Rightarrow> string list \<Rightarrow> scoring_error option" where
  "check_required scoringResult [] = None"
| "check_required scoringResult (field # rest) =
     (case get scoringResult field of
        Inl e \<Rightarrow> Some (scoring_catch e)
      | Inr v \<Rightarrow>
          if v = JUndefined then Some (MissingField (''scoring_result.'' @ field))
          else check_required scoringResult rest)"

text \<open>
  The loop over \<^verbatim>\<open>breakdownFields\<close> prints which entries and which of their fields are
  present. It reports nothing, and it reads \<^verbatim>\<open>item[itemField]\<close> of every entry that is
  not undefined.
\<close>

fun inspect_item :: "js \<Rightarrow> string list \<Rightarrow> exn option" where
  "inspect_item item [] = None"
| "inspect_item item (itemField # fs) =
     (case get item itemField of Inl e \<Rightarrow> Some e | Inr v \<Rightarrow> inspect_item item fs)"

fun inspect_breakdown :: "js \<Rightarrow> string list \<Rightarrow> exn option" where
  "inspect_breakdown breakdown [] = None"
| "inspect_breakdown breakdown (field # rest) =
     (if truthy breakdown
      then (case get breakdown field of
              Inl e \<Rightarrow> Some e
            | Inr item \<Rightarrow>
                if item \<noteq> JUndefined
                then (case inspect_item item itemFields of
                        Some e \<Rightarrow> Some e
                      | None \<Rightarrow> inspect_breakdown breakdown rest)
                else inspect_breakdown breakdown rest)
      else inspect_breakdown breakdown rest)"

text \<open>\<^verbatim>\<open>!breakdown || !breakdown.hard_skills || ...\<close>, read from left to right.\<close>

fun any_falsy :: "js \<Rightarrow> string list \<Rightarrow> exn + bool" where
  "any_falsy breakdown [] = Inr False"
| "any_falsy breakdown (field # rest) =
     (case get breakdown field of
        Inl e \<Rightarrow> Inl e
      | Inr v \<Rightarrow> if \<not> truthy v then Inr True else any_falsy breakdown rest)"

text \<open>The range check: a number from 0 to 100.\<close>

definition in_range :: "js \<Rightarrow> bool" where
  "in_range v = (case v of JNum x \<Rightarrow> 0 \<le> x \<and> x \<le> 100 | _ \<Rightarrow> False)"

definition scoreFields :: "js \<Rightarrow> js \<Rightarrow> exn + (string \<times> js) list" where
  "scoreFields scoringResult breakdown =
     andThen (get scoringResult ''total_score'') (\<lambda>total_score.
     andThen (andThen (get breakdown ''hard_skills'') (\<lambda>i. get i ''score'')) (\<lambda>hard.
     andThen (andThen (get breakdown ''soft_skills'') (\<lambda>i. get i ''score'')) (\<lambda>soft.
     andThen (andThen (get breakdown ''experience_match'') (\<lambda>i. get i ''score'')) (\<lambda>experience.
     andThen (andThen (get breakdown ''position_match'') (\<lambda>i. get i ''score'')) (\<lambda>position.
     Inr [(''total_score'', total_score),
          (''breakdown.hard_skills.score'', hard),
          (''breakdown.soft_skills.score'', soft),
          (''breakdown.experience_match.score'', experience),
          (''breakdown.position_match.score'', position)])))))"

text \<open>
  The validation of the parsed response, from \<^verbatim>\<open>if (!responseData || ...)\<close> to the
  \<^verbatim>\<open>return\<close>. The result is the response with the names that \<^verbatim>\<open>console.warn\<close> reported as
  out of range.
\<close>

definition check_response :: "js \<Rightarrow> scoring_error + js \<times> string list" where
  "check_response responseData =
     (if \<not> truthy responseData \<or> typeof responseData \<noteq> ''object'' then Inl NotAnObject
      else
        (case get responseData ''scoring_result'' of
           Inl e \<Rightarrow> Inl (scoring_catch e)
         | Inr scoringResult \<Rightarrow>
             if \<not> truthy scoringResult then Inl (MissingField ''scoring_result'')
             else
               (case check_required scoringResult requiredFields of
                  Some err \<Rightarrow> Inl err
                | None \<Rightarrow>
                    (case get scoringResult ''breakdown'' of
                       Inl e \<Rightarrow> Inl (scoring_catch e)
                     | Inr breakdown \<Rightarrow>
                         (case inspect_breakdown breakdown breakdownFields of
                            Some e \<Rightarrow> Inl (scoring_catch e)
                          | None \<Rightarrow>
                              (case (if \<not> truthy breakdown then Inr True
                                     else any_falsy breakdown breakdownFields) of
                                 Inl e \<Rightarrow> Inl (scoring_catch e)
                               | Inr True \<Rightarrow> Inl BadBreakdown
                               | Inr False \<Rightarrow>
                                   (case scoreFields scoringResult breakdown of
                                      Inl e \<Rightarrow> Inl (scoring_catch e)
                                    | Inr scores \<Rightarrow>
                                        Inr (responseData,
                                             map fst (filter (\<lambda>scoreField.
                                               \<not> in_range (snd scoreField)) scores)))))))))"

text \<open>\<^verbatim>\<open>!v || v.trim().length === 0\<close>.\<close>

definition blank :: "js \<Rightarrow> exn + bool" where
  "blank v =
     (if \<not> truthy v then Inr True
      else andThen (call_trim v) (\<lambda>t. Inr (t = JStr [])))"

text \<open>\<^verbatim>\<open>skill && typeof skill === 'string' && skill.trim().length > 0\<close>.\<close>

definition valid_skill :: "js \<Rightarrow> bool" where
  "valid_skill skill = (case skill of JStr s \<Rightarrow> s \<noteq> [] \<and> trim s \<noteq> [] | _ \<Rightarrow> False)"

text \<open>\<^verbatim>\<open>exp && exp.position && exp.position.trim().length > 0\<close>.\<close>

definition valid_experience :: "js \<Rightarrow> exn + bool" where
  "valid_experience entry =
     (if \<not> truthy entry then Inr False
      else andThen (get entry ''position'') (\<lambda>position.
           if \<not> truthy position then Inr False
           else andThen (call_trim position) (\<lambda>t. Inr (t \<noteq> JStr []))))"

text \<open>\<^verbatim>\<open>xs.filter(p)\<close> for a test that may throw.\<close>

fun filter_throwing :: "(js \<Rightarrow> exn + bool) \<Rightarrow> js list \<Rightarrow> exn + js list" where
  "filter_throwing p [] = Inr []"
| "filter_throwing p (x # xs) =
     andThen (p x) (\<lambda>keep.
     andThen (filter_throwing p xs) (\<lambda>ys. Inr (if keep then x # ys else ys)))"

text \<open>The check of the skills of the resume.\<close>

definition skills_errors :: "js \<Rightarrow> exn + input_error list" where
  "skills_errors skills =
     andThen (andThen (get skills ''hard_skills'') get_length) (\<lambda>hard_length.
     andThen (if truthy hard_length then Inr False
              else andThen (andThen (get skills ''soft_skills'') get_length)
                     (\<lambda>soft_length. Inr (\<not> truthy soft_length))) (\<lambda>no_skills.
     if no_skills then Inr [NoSkills]
     else
       andThen (get skills ''hard_skills'') (\<lambda>hardSkills.
       andThen (get skills ''soft_skills'') (\<lambda>softSkills.
       andThen (iterate hardSkills) (\<lambda>hs.
       andThen (iterate softSkills) (\<lambda>ss.
       Inr (if length (filter valid_skill (hs @ ss)) = 0 then [BlankSkills] else [])))))))"

text \<open>The check of the work experience, which only warns.\<close>

definition experience_check :: "js \<Rightarrow> exn + unit" where
  "experience_check experience =
     andThen (get_length experience) (\<lambda>n.
     if n = JNum 0 then Inr ()
     else (case experience of
             JArr xs \<Rightarrow> andThen (filter_throwing valid_experience xs) (\<lambda>validExperience. Inr ())
           | _ \<Rightarrow> Inl (Exn ''TypeError'' ''resumeData.experience.filter is not a function'')))"

text \<open>
  The branch for a resume that is present. The values are read in the order of the
  code, first for the log and then for the checks.
\<close>

definition resume_errors :: "js \<Rightarrow> exn + input_error list" where
  "resume_errors resume_data =
     andThen (get resume_data ''personal_info'') (\<lambda>personal_info.
     andThen (get personal_info ''first_name'') (\<lambda>first_name.
     andThen (get personal_info ''last_name'') (\<lambda>last_name.
     andThen (get resume_data ''skills'') (\<lambda>skills.
     andThen (get resume_data ''experience'') (\<lambda>experience.
     andThen (blank first_name) (\<lambda>no_first_name.
     andThen (blank last_name) (\<lambda>no_last_name.
     andThen (skills_errors skills) (\<lambda>skill_errors.
     andThen (experience_check experience) (\<lambda>u.
     Inr ((if no_first_name then [NoFirstName] else [])
          @ (if no_last_name then [NoLastName] else [])
          @ skill_errors))))))))))"

text \<open>
  The branch for a vacancy that is present. The check of the required skills only warns
  and cannot throw; the check of the description only warns.
\<close>

definition job_errors :: "js \<Rightarrow> exn + input_error list" where
  "job_errors jobData =
     andThen (andThen (get jobData ''job_title'') blank) (\<lambda>no_title.
     andThen (andThen (get jobData ''company_name'') blank) (\<lambda>no_company.
     andThen (andThen (get jobData ''description'') blank) (\<lambda>no_description.
     Inr ((if no_title then [NoJobTitle] else [])
          @ (if no_company then [NoCompany] else [])))))"

definition user_errors :: "string \<Rightarrow> input_error list" where
  "user_errors userId =
     (if userId = [] \<or> length (trim userId) = 0 then [NoUserId]
      else if length userId < 3 then [ShortUserId]
      else [])"

definition validateScoringData :: "js \<Rightarrow> js \<Rightarrow> string \<Rightarrow> exn + input_error list" where
  "validateScoringData resume_data jobData userId =
     andThen (if \<not> truthy resume_data then Inr [NoResume] else resume_errors resume_data)
       (\<lambda>errors1.
     andThen (if \<not> truthy jobData then Inr [NoJob] else job_errors jobData) (\<lambda>errors2.
     Inr (errors1 @ errors2 @ user_errors userId)))"

definition requestPayload :: "js \<Rightarrow> js \<Rightarrow> string \<Rightarrow> js" where
  "requestPayload resume_data jobData userId =
     JObj [(''resume_data'', resume_data), (''job_data'', jobData), (''user_id'', JStr userId)]"

text \<open>
  \<^verbatim>\<open>performScoringAnalysis\<close>. The call of \<^verbatim>\<open>fetch\<close> is the parameter \<open>fetch\<close>, from the
  body of the request to what the call comes to. The validation of the input runs
  before the try block, so what it throws is not caught.
\<close>

definition performScoringAnalysis ::
  "(js \<Rightarrow> fetch_outcome) \<Rightarrow> js \<Rightarrow> js \<Rightarrow> string \<Rightarrow> scoring_error + js \<times> string list" where
  "performScoringAnalysis fetch resume_data jobData userId =
     (case validateScoringData resume_data jobData userId of
        Inl e \<Rightarrow> Inl (Uncaught e)
      | Inr errors \<Rightarrow>
          if errors \<noteq> [] then Inl (InputInvalid errors)
          else
            (case fetch (requestPayload resume_data jobData userId) of
               Rejected e \<Rightarrow> Inl (scoring_catch e)
             | Resolved r \<Rightarrow>
                 if \<not> resp_ok r then Inl (http_error r)
                 else
                   (case resp_json r of
                      Inl e \<Rightarrow> Inl (scoring_catch e)
                    | Inr responseData \<Rightarrow> check_response responseData)))"

text \<open>
  The structure the validation requires: the response is an object (or an array) with
  a truthy \<^verbatim>\<open>scoring_result\<close>, whose five required fields are not undefined, whose
  \<^verbatim>\<open>breakdown\<close> is truthy and has four truthy entries.
\<close>

definition scoring_result_of :: "js \<Rightarrow> js" where
  "scoring_result_of responseData = member_of responseData ''scoring_result''"

definition breakdown_of :: "js \<Rightarrow> js" where
  "breakdown_of responseData = member_of (scoring_result_of responseData) ''breakdown''"

definition is_object :: "js \<Rightarrow> bool" where
  "is_object v = (truthy v \<and> typeof v = ''object'')"

definition fields_present :: "js \<Rightarrow> bool" where
  "fields_present responseData =
     list_all (\<lambda>field. member_of (scoring_result_of responseData) field \<noteq> JUndefined)
       requiredFields"

definition breakdown_ok :: "js \<Rightarrow> bool" where
  "breakdown_ok responseData =
     (truthy (breakdown_of responseData)
      \<and> list_all (\<lambda>field. truthy (member_of (breakdown_of responseData) field))
          breakdownFields)"

definition structure_ok :: "js \<Rightarrow> bool" where
  "structure_ok responseData =
     (is_object responseData \<and> truthy (scoring_result_of responseData)
      \<and> fields_present responseData \<and> breakdown_ok responseData)"

text \<open>An entry of \<^verbatim>\<open>breakdown\<close> that is null (and so not undefined).\<close>

definition null_entry :: "js \<Rightarrow> bool" where
  "null_entry responseData =
     (truthy (breakdown_of responseData)
      \<and> list_ex (\<lambda>field. member_of (breakdown_of responseData) field = JNull) breakdownFields)"

text \<open>The first required field of \<^verbatim>\<open>scoring_result\<close> that is undefined.\<close>

definition first_missing :: "js \<Rightarrow> string option" where
  "first_missing responseData =
     find (\<lambda>field. member_of (scoring_result_of responseData) field = JUndefined) requiredFields"

text \<open>The five scores of a response, under the names the range check prints.\<close>

definition scores_of :: "js \<Rightarrow> (string \<times> js) list" where
  "scores_of responseData =
     [(''total_score'', member_of (scoring_result_of responseData) ''total_score''),
      (''breakdown.hard_skills.score'',
         member_of (member_of (breakdown_of responseData) ''hard_skills'') ''score''),
      (''breakdown.soft_skills.score'',
         member_of (member_of (breakdown_of responseData) ''soft_skills'') ''score''),
      (''breakdown.experience_match.score'',
         member_of (member_of (breakdown_of responseData) ''experience_match'') ''score''),
      (''breakdown.position_match.score'',
         member_of (member_of (breakdown_of responseData) ''position_match'') ''score'')]"

text \<open>Sample responses of the scoring service.\<close>

definition ok_response :: "js \<Rightarrow> response" where
  "ok_response body =
     \<lparr>resp_ok = True, resp_status = 200, resp_statusText = ''OK'', resp_json = Inr body,
      resp_text = Inl (Exn ''TypeError'' ''body stream already read'')\<rparr>"

definition answering :: "js \<Rightarrow> js \<Rightarrow> fetch_outcome" where
  "answering body payload = Resolved (ok_response body)"

definition anna_resume :: js where
  "anna_resume =
     JObj [(''personal_info'', JObj [(''first_name'', JStr ''Anna''), (''last_name'', JStr ''Lee'')]),
           (''skills'', JObj [(''hard_skills'', JArr [JStr ''Go'']), (''soft_skills'', JArr [])]),
           (''experience'', JArr [JObj [(''position'', JStr ''Engineer'')]]),
           (''education'', JArr [])]"

definition dev_user :: string where
  "dev_user = ''011224_1200''"

definition acme_job :: js where
  "acme_job = JObj [(''job_title'', JStr ''Engineer''), (''company_name'', JStr ''Acme'')]"

definition score_item :: "real \<Rightarrow> js" where
  "score_item x =
     JObj [(''score'', JNum x), (''summary'', JStr ''fit''), (''description'', JStr ''detail'')]"

definition scoring_payload :: "real \<Rightarrow> (string \<times> js) list \<Rightarrow> js" where
  "scoring_payload x entries =
     JObj [(''scoring_result'',
       JObj [(''total_score'', JNum x),
             (''breakdown'', JObj entries),
             (''recommendation'', JStr ''good''),
             (''recruiter_recommendation'', JStr ''invite''),
             (''candidate_recommendation'', JStr ''apply'')])]"

definition payload_without_soft_skills :: js where
  "payload_without_soft_skills =
     scoring_payload 71
       [(''hard_skills'', score_item 60), (''experience_match'', score_item 80),
        (''position_match'', score_item 75)]"

definition payload_without_recommendation :: js where
  "payload_without_recommendation =
     JObj [(''scoring_result'',
       JObj [(''total_score'', JNum 71), (''breakdown'', JObj []),
             (''recruiter_recommendation'', JStr ''invite'')])]"

definition payload_null_entry :: js where
  "payload_null_entry =
     scoring_payload 71
       [(''hard_skills'', score_item 60), (''soft_skills'', JNull),
        (''experience_match'', score_item 80), (''position_match'', score_item 75)]"

definition payload_105 :: js where
  "payload_105 =
     scoring_payload 105
       [(''hard_skills'', score_item 60), (''soft_skills'', score_item (- 5)),
        (''experience_match'', score_item 80), (''position_match'', score_item 75)]"

section \<open>JobAnalysis: the analysis of a vacancy\<close>

text \<open>\<^verbatim>\<open>parseJobDataFlexibly\<close>.\<close>

definition array_or :: "exn + js \<Rightarrow> exn + js \<Rightarrow> exn + js \<Rightarrow> exn + js" where
  "array_or probe found otherwise =
     andThen probe (\<lambda>v. if isArray v then found else otherwise)"

definition parseJobDataFlexibly :: "js \<Rightarrow> exn + js" where
  "parseJobDataFlexibly rawData =
     andThen (or_else (optc rawData ''job_data'') (Inr rawData)) (\<lambda>actualJobData.
     andThen (or_else (optc actualJobData ''job_title'')
             (or_else (optc actualJobData ''title'') (Inr (JStr [])))) (\<lambda>title.
     andThen (array_or (optc2 actualJobData ''skills'' ''hard_skills'')
                (andThen (get actualJobData ''skills'') (\<lambda>s. get s ''hard_skills''))
                (array_or (optc actualJobData ''required_skills'')
                   (get actualJobData ''required_skills'') (Inr (JArr [])))) (\<lambda>hard_skills.
     andThen (array_or (optc2 actualJobData ''skills'' ''soft_skills'')
                (andThen (get actualJobData ''skills'') (\<lambda>s. get s ''soft_skills''))
                (Inr (JArr []))) (\<lambda>soft_skills.
     andThen (array_or (optc2 actualJobData ''skills'' ''languages'')
                (andThen (get actualJobData ''skills'') (\<lambda>s. get s ''languages''))
                (Inr (JArr []))) (\<lambda>languages.
     andThen (or_else (optc actualJobData ''company_name'') (Inr (JStr []))) (\<lambda>company_name.
     andThen (or_else (optc actualJobData ''location'') (Inr (JObj []))) (\<lambda>location.
     andThen (or_else (optc actualJobData ''employment_type'') (Inr (JStr []))) (\<lambda>employment_type.
     andThen (or_else (optc actualJobData ''experience_level'') (Inr (JStr []))) (\<lambda>experience_level.
     andThen (or_else (optc actualJobData ''industry'') (Inr (JStr []))) (\<lambda>industry.
     andThen (or_else (optc actualJobData ''description'') (Inr (JStr []))) (\<lambda>description.
     Inr (JObj
       [(''job_title'', title),
        (''title'', title),
        (''skills'', JObj [(''hard_skills'', hard_skills), (''soft_skills'', soft_skills),
                          (''languages'', languages)]),
        (''company_name'', company_name),
        (''location'', location),
        (''employment_type'', employment_type),
        (''experience_level'', experience_level),
        (''industry'', industry),
        (''description'', description),
        (''required_skills'', hard_skills)]))))))))))))"

text \<open>The fields of the form in which the user edits the vacancy.\<close>

record editable =
  title :: js
  hard_skills :: js
  soft_skills :: js
  languages :: js

text \<open>
  The message shown when the analysis fails quotes the message of what was thrown: the
  text made of the status and the body of a response that is not ok, or the message of
  an exception.
\<close>

datatype thrown_message = ApiStatus nat string | Message string

text \<open>
  The state of the component the function writes (\<open>error_shown\<close> is the state variable
  \<^verbatim>\<open>error\<close>).
\<close>

record job_analysis =
  isAnalyzing :: bool
  analysisResult :: js
  error_shown :: "thrown_message option"
  isEditing :: bool
  editableData :: editable

text \<open>The body of the request to the extraction service.\<close>

record vacancy_request =
  vacancy_url :: string
  user_id :: string

definition emptyData :: js where
  "emptyData =
     JObj [(''job_title'', JStr []),
           (''title'', JStr []),
           (''company_name'', JStr []),
           (''skills'', JObj [(''hard_skills'', JArr []), (''soft_skills'', JArr []),
                             (''languages'', JArr [])]),
           (''location'', JObj []),
           (''employment_type'', JStr []),
           (''experience_level'', JStr []),
           (''industry'', JStr []),
           (''description'', JStr []),
           (''required_skills'', JArr [])]"

text \<open>The catch clause of \<^verbatim>\<open>analyzeJobVacancy\<close>.\<close>

definition analysis_failed :: "thrown_message \<Rightarrow> job_analysis \<Rightarrow> job_analysis" where
  "analysis_failed m s =
     s\<lparr>error_shown := Some m,
       isAnalyzing := False,
       analysisResult := emptyData,
       editableData := \<lparr>title = JStr [], hard_skills = JArr [], soft_skills = JArr [],
                        languages = JArr []\<rparr>,
       isEditing := True\<rparr>"

text \<open>
  The end of the try block, from \<^verbatim>\<open>setAnalysisResult(parsedData)\<close> on. The second
  component of the result lists the values handed to \<^verbatim>\<open>onAnalysisComplete\<close>.
\<close>

definition analysis_done :: "js \<Rightarrow> job_analysis \<Rightarrow> job_analysis \<times> js list" where
  "analysis_done parsedData s =
     (case andThen (or_else (get parsedData ''job_title'') (Inr (JStr []))) (\<lambda>t.
           andThen (or_else (optc2 parsedData ''skills'' ''hard_skills'') (Inr (JArr []))) (\<lambda>h.
           andThen (or_else (optc2 parsedData ''skills'' ''soft_skills'') (Inr (JArr []))) (\<lambda>f.
           andThen (or_else (optc2 parsedData ''skills'' ''languages'') (Inr (JArr []))) (\<lambda>l.
           Inr \<lparr>title = t, hard_skills = h, soft_skills = f, languages = l\<rparr>)))) of
        Inl e \<Rightarrow>
          (analysis_failed (Message (exn_message e)) (s\<lparr>analysisResult := parsedData\<rparr>), [])
      | Inr newEditableData \<Rightarrow>
          (s\<lparr>analysisResult := parsedData,
             editableData := newEditableData,
             isAnalyzing := False\<rparr>,
           [parsedData]))"

text \<open>
  \<^verbatim>\<open>analyzeJobVacancy\<close>. The call of \<^verbatim>\<open>fetch\<close> is the parameter \<open>fetch\<close>, from the body
  of the request to what the call comes to.
\<close>

definition analyzeJobVacancy ::
  "(vacancy_request \<Rightarrow> fetch_outcome) \<Rightarrow> string \<Rightarrow> string \<Rightarrow> job_analysis
   \<Rightarrow> job_analysis \<times> js list" where
  "analyzeJobVacancy fetch url userId s0 =
     (let s = s0\<lparr>error_shown := None, isAnalyzing := True\<rparr>
      in case fetch \<lparr>vacancy_url = trim url, user_id = userId\<rparr> of
           Rejected e \<Rightarrow> (analysis_failed (Message (exn_message e)) s, [])
         | Resolved r \<Rightarrow>
             if \<not> resp_ok r
             then (case resp_text r of
                     Inl e \<Rightarrow> (analysis_failed (Message (exn_message e)) s, [])
                   | Inr errorText \<Rightarrow>
                       (analysis_failed (ApiStatus (resp_status r) errorText) s, []))
             else (case resp_json r of
                     Inl e \<Rightarrow> (analysis_failed (Message (exn_message e)) s, [])
                   | Inr data \<Rightarrow>
                       (case parseJobDataFlexibly data of
                          Inl e \<Rightarrow> (analysis_failed (Message (exn_message e)) s, [])
                        | Inr parsedData \<Rightarrow> analysis_done parsedData s)))"

text \<open>The extraction call fails: no response, a response that is not ok, or a body that does not parse.\<close>

definition extraction_fails :: "fetch_outcome \<Rightarrow> bool" where
  "extraction_fails outcome =
     (case outcome of
        Rejected e \<Rightarrow> True
      | Resolved r \<Rightarrow> \<not> resp_ok r \<or> isl (resp_json r))"

text \<open>Sample outcomes of the extraction call and a sample state of the component.\<close>

definition idle_analysis :: job_analysis where
  "idle_analysis =
     \<lparr>isAnalyzing = False, analysisResult = JNull, error_shown = None, isEditing = False,
      editableData = \<lparr>title = JStr [], hard_skills = JArr [], soft_skills = JArr [],
                      languages = JArr []\<rparr>\<rparr>"

definition server_down :: "vacancy_request \<Rightarrow> fetch_outcome" where
  "server_down q =
     Resolved \<lparr>resp_ok = False, resp_status = 503, resp_statusText = ''Service Unavailable'',
               resp_json = Inl (Exn ''SyntaxError'' ''Unexpected token < in JSON''),
               resp_text = Inr ''<html>busy</html>''\<rparr>"

definition no_network :: "vacancy_request \<Rightarrow> fetch_outcome" where
  "no_network q = Rejected (Exn ''TypeError'' ''Failed to fetch'')"

definition not_json :: "vacancy_request \<Rightarrow> fetch_outcome" where
  "not_json q =
     Resolved \<lparr>resp_ok = True, resp_status = 200, resp_statusText = ''OK'',
               resp_json = Inl (Exn ''SyntaxError'' ''Unexpected end of JSON input''),
               resp_text = Inr []\<rparr>"

definition extracted :: "vacancy_request \<Rightarrow> fetch_outcome" where
  "extracted q =
     Resolved (ok_response (JObj [(''job_data'',
       JObj [(''job_title'', JStr ''Engineer''), (''company_name'', JStr ''Acme''),
             (''required_skills'', JArr [JStr ''Go''])])]))"

section \<open>FinalResults: saving a generation\<close>

text \<open>
  The component is drawn by the controller with the four artifacts of \<open>savedData\<close> and
  the user as properties; \<open>final\<close> is its own state.
\<close>

datatype save_message = NotAuthenticated | ServerSaid js | HttpStatus nat | Thrown string

text \<open>
  What \<^verbatim>\<open>setSaveError\<close> is given: the text saying that data needed for saving is absent,
  or the text saying that saving failed, which quotes the message of what was thrown.
\<close>

datatype save_error = MissingData | SaveFailed save_message

datatype tab = LetterTab | ScoringTab

record final_results =
  isSaving :: bool
  saveError :: "save_error option"
  saveSuccess :: bool
  activeTab :: tab

record app =
  dash :: dashboard
  user :: "string option"
  final :: final_results

text \<open>The answer of \<^verbatim>\<open>supabase.auth.getSession()\<close>: the access token of the session, if any, and whether there is an error.\<close>

record session_reply =
  session :: "string option"
  sessionError :: bool

text \<open>What the two asynchronous calls of \<^verbatim>\<open>handleSaveGeneration\<close> come to.\<close>

record save_env =
  getSession :: "exn + session_reply"
  save_fetch :: fetch_outcome

text \<open>
  The try block. The body of the request is built from the artifacts, which it reads
  and does not change; the one read in it that can throw is
  \<^verbatim>\<open>matchingResults.scoring_result.total_score\<close>.
\<close>

definition save_attempt :: "save_env \<Rightarrow> saved_data \<Rightarrow> save_message + js" where
  "save_attempt env d =
     (case getSession env of
        Inl e \<Rightarrow> Inl (Thrown (exn_message e))
      | Inr reply \<Rightarrow>
          if sessionError reply \<or> session reply = None then Inl NotAuthenticated
          else
            (case andThen (get (matchingResults d) ''scoring_result'')
                    (\<lambda>r. get r ''total_score'') of
               Inl e \<Rightarrow> Inl (Thrown (exn_message e))
             | Inr overall_score \<Rightarrow>
                 (case save_fetch env of
                    Rejected e \<Rightarrow> Inl (Thrown (exn_message e))
                  | Resolved r \<Rightarrow>
                      if \<not> resp_ok r
                      then (case andThen (resp_json r) (\<lambda>errorData. get errorData ''error'') of
                              Inl e \<Rightarrow> Inl (Thrown (exn_message e))
                            | Inr v \<Rightarrow>
                                if truthy v then Inl (ServerSaid v)
                                else Inl (HttpStatus (resp_status r)))
                      else (case resp_json r of
                              Inl e \<Rightarrow> Inl (Thrown (exn_message e))
                            | Inr result \<Rightarrow> Inr result))))"

text \<open>
  What the component draws, as far as drawing can throw. On the tab of the letter, which
  holds the button that saves, the block \<^verbatim>\<open>{saveError && (...)}\<close> names the icon
  \<^verbatim>\<open>AlertTriangle\<close>, which the file does not import: evaluating it is a ReferenceError.
  On the tab of the scoring the total score and the four scores of the breakdown are
  read from the scoring results, when these are present.
\<close>

definition scoring_tab_reads :: "js \<Rightarrow> exn + unit" where
  "scoring_tab_reads results =
     andThen (get results ''scoring_result'') (\<lambda>scoring_result.
     andThen (get scoring_result ''total_score'') (\<lambda>total_score.
     andThen (get scoring_result ''breakdown'') (\<lambda>breakdown.
     andThen (andThen (get breakdown ''hard_skills'') (\<lambda>i. get i ''score'')) (\<lambda>hard.
     andThen (andThen (get breakdown ''soft_skills'') (\<lambda>i. get i ''score'')) (\<lambda>soft.
     andThen (andThen (get breakdown ''experience_match'') (\<lambda>i. get i ''score'')) (\<lambda>experience.
     andThen (andThen (get breakdown ''position_match'') (\<lambda>i. get i ''score'')) (\<lambda>position.
     Inr ())))))))"

definition render_FinalResults :: "app \<Rightarrow> exn + unit" where
  "render_FinalResults a =
     (case activeTab (final a) of
        LetterTab \<Rightarrow>
          if saveError (final a) \<noteq> None
          then Inl (Exn ''ReferenceError'' ''AlertTriangle is not defined'')
          else Inr ()
      | ScoringTab \<Rightarrow>
          if truthy (matchingResults (savedData (dash a)))
          then scoring_tab_reads (matchingResults (savedData (dash a)))
          else Inr ())"

text \<open>
  What is on the screen after a state is written: the application with that state, or
  nothing. No component of the application catches an error thrown while drawing, so
  such an error unmounts the whole tree, and the state of the controller, which lives
  in it, is gone.
\<close>

datatype screen = Mounted app | Unmounted exn

definition drawn :: "app \<Rightarrow> screen" where
  "drawn a = (case render_FinalResults a of Inl e \<Rightarrow> Unmounted e | Inr u \<Rightarrow> Mounted a)"

text \<open>
  \<^verbatim>\<open>handleSaveGeneration\<close>, with the drawing that follows its writes to the state: the
  one after \<^verbatim>\<open>setIsSaving(true)\<close> and \<^verbatim>\<open>setSaveError(null)\<close>, before the first
  \<^verbatim>\<open>await\<close>, and the one after the last write. The second component of the result
  tells whether the timer that calls \<^verbatim>\<open>onGenerationSaved\<close> was started.
\<close>

definition handleSaveGeneration :: "save_env \<Rightarrow> app \<Rightarrow> screen \<times> bool" where
  "handleSaveGeneration env a =
     (let d = savedData (dash a)
      in if \<not> truthy (matchingResults d) \<or> coverLetter d = [] \<or> \<not> truthy (resumeData d)
            \<or> \<not> truthy (jobAnalysis d) \<or> user a = None
         then (drawn (a\<lparr>final := (final a)\<lparr>saveError := Some MissingData\<rparr>\<rparr>), False)
         else
           (case render_FinalResults
                   (a\<lparr>final := (final a)\<lparr>isSaving := True, saveError := None\<rparr>\<rparr>) of
              Inl e \<Rightarrow> (Unmounted e, False)
            | Inr u \<Rightarrow>
                (case save_attempt env d of
                   Inl m \<Rightarrow>
                     (drawn (a\<lparr>final := (final a)\<lparr>saveError := Some (SaveFailed m),
                                                     isSaving := False\<rparr>\<rparr>),
                      False)
                 | Inr result \<Rightarrow>
                     (drawn (a\<lparr>final := (final a)\<lparr>saveError := None, saveSuccess := True,
                                                     isSaving := False\<rparr>\<rparr>),
                      True))))"

text \<open>
  The ways saving fails: an artifact or the user is absent; there is no session; the
  request is rejected; the response is not ok.
\<close>

definition artifacts_missing :: "app \<Rightarrow> bool" where
  "artifacts_missing a =
     (\<not> truthy (matchingResults (savedData (dash a))) \<or> coverLetter (savedData (dash a)) = []
      \<or> \<not> truthy (resumeData (savedData (dash a)))
      \<or> \<not> truthy (jobAnalysis (savedData (dash a))) \<or> user a = None)"

definition unauthenticated :: "save_env \<Rightarrow> bool" where
  "unauthenticated env =
     (case getSession env of
        Inl e \<Rightarrow> True
      | Inr reply \<Rightarrow> sessionError reply \<or> session reply = None)"

definition request_fails :: "save_env \<Rightarrow> bool" where
  "request_fails env =
     (case save_fetch env of Rejected e \<Rightarrow> True | Resolved r \<Rightarrow> \<not> resp_ok r)"

definition save_fails :: "save_env \<Rightarrow> app \<Rightarrow> bool" where
  "save_fails env a = (artifacts_missing a \<or> unauthenticated env \<or> request_fails env)"

text \<open>A sample run that has reached the last step, and sample environments.\<close>

definition finished_dashboard :: dashboard where
  "finished_dashboard =
     \<lparr>currentStep = Final, resumeUploaded = True, jobAnalyzed = True,
      letterGenerated = True, scoringCompleted = True, isCoverLetterEditing = False,
      hasUnsavedCoverLetterChanges = False,
      savedData =
        \<lparr>resume = Some \<lparr>file_name = ''cv.pdf'', file_size = 1000,
                         file_type = ''application/pdf''\<rparr>,
         resumeData = JObj [(''summary'', JStr ''engineer'')],
         jobAnalysis = JObj [(''job_title'', JStr ''Engineer'')],
         coverLetter = ''Dear team'',
         matchingResults = JObj [(''scoring_result'', JObj [(''total_score'', JNum 71)])]\<rparr>\<rparr>"

definition finished_app :: app where
  "finished_app =
     \<lparr>dash = finished_dashboard, user = Some ''u1'',
      final = \<lparr>isSaving = False, saveError = None, saveSuccess = False,
               activeTab = LetterTab\<rparr>\<rparr>"

definition signed_in :: "exn + session_reply" where
  "signed_in = Inr \<lparr>session = Some ''token'', sessionError = False\<rparr>"

definition env_signed_out :: save_env where
  "env_signed_out =
     \<lparr>getSession = Inr \<lparr>session = None, sessionError = False\<rparr>,
      save_fetch = Resolved (ok_response (JObj [(''success'', JBool True)]))\<rparr>"

definition env_offline :: save_env where
  "env_offline =
     \<lparr>getSession = signed_in, save_fetch = Rejected (Exn ''TypeError'' ''Failed to fetch'')\<rparr>"

definition env_rejected :: save_env where
  "env_rejected =
     \<lparr>getSession = signed_in,
      save_fetch = Resolved
        \<lparr>resp_ok = False, resp_status = 400, resp_statusText = ''Bad Request'',
         resp_json = Inr (JObj [(''error'', JStr ''invalid'')]), resp_text = Inr []\<rparr>\<rparr>"

section \<open>The save-generation function of the server\<close>

text \<open>
  The messages of \<^verbatim>\<open>validateGenerationData\<close>, one for each check: the job title, the
  company name and the cover letter must be non-empty strings; the scoring results, the
  resume data and the job data must be objects; the overall score must be a number from
  0 to 100; the title must be a string of at most 200 characters; the status must be one
  of the three allowed.
\<close>

datatype generation_error =
    JobTitleRequired | CompanyNameRequired | CoverLetterRequired
  | ScoringResultsRequired | ResumeDataRequired | JobDataRequired
  | ScoreOutOfRange | TitleTooLong | StatusNotAllowed

text \<open>\<^verbatim>\<open>!v || typeof v !== 'string' || v.trim().length === 0\<close>.\<close>

definition not_nonempty_string :: "js \<Rightarrow> bool" where
  "not_nonempty_string v =
     (\<not> truthy v \<or> typeof v \<noteq> ''string''
      \<or> (case v of JStr s \<Rightarrow> length (trim s) = 0 | _ \<Rightarrow> True))"

text \<open>\<^verbatim>\<open>!v || typeof v !== 'object'\<close>.\<close>

definition not_an_object :: "js \<Rightarrow> bool" where
  "not_an_object v = (\<not> truthy v \<or> typeof v \<noteq> ''object'')"

text \<open>\<^verbatim>\<open>typeof v !== 'number' || v < 0 || v > 100\<close>.\<close>

definition score_rejected :: "js \<Rightarrow> bool" where
  "score_rejected v = (case v of JNum x \<Rightarrow> x < 0 \<or> x > 100 | _ \<Rightarrow> True)"

text \<open>\<^verbatim>\<open>typeof v !== 'string' || v.length > 200\<close>.\<close>

definition title_rejected :: "js \<Rightarrow> bool" where
  "title_rejected v = (case v of JStr s \<Rightarrow> length s > 200 | _ \<Rightarrow> True)"

definition allowedStatuses :: "string list" where
  "allowedStatuses = [''completed'', ''draft'', ''archived'']"

definition validateGenerationData :: "js \<Rightarrow> exn + generation_error list" where
  "validateGenerationData data =
     (if nullish data then Inl (cannot_read data ''job_title'')
      else Inr
        ((if not_nonempty_string (member_of data ''job_title'') then [JobTitleRequired] else [])
         @ (if not_nonempty_string (member_of data ''company_name'')
            then [CompanyNameRequired] else [])
         @ (if not_nonempty_string (member_of data ''cover_letter_text'')
            then [CoverLetterRequired] else [])
         @ (if not_an_object (member_of data ''scoring_results_json'')
            then [ScoringResultsRequired] else [])
         @ (if not_an_object (member_of data ''resume_data_json'')
            then [ResumeDataRequired] else [])
         @ (if not_an_object (member_of data ''job_data_json'') then [JobDataRequired] else [])
         @ (if member_of data ''overall_score'' \<noteq> JUndefined
               \<and> score_rejected (member_of data ''overall_score'')
            then [ScoreOutOfRange] else [])
         @ (if member_of data ''title'' \<noteq> JUndefined \<and> title_rejected (member_of data ''title'')
            then [TitleTooLong] else [])
         @ (if member_of data ''status'' \<noteq> JUndefined
               \<and> member_of data ''status'' \<notin> set (map JStr allowedStatuses)
            then [StatusNotAllowed] else [])))"

text \<open>The object \<^verbatim>\<open>insertData\<close>, for the identifier of the user and the body of the request.\<close>

definition insertData :: "string \<Rightarrow> js \<Rightarrow> exn + js" where
  "insertData user_id_value requestData =
     andThen (andThen (get requestData ''job_title'') call_trim) (\<lambda>job_title.
     andThen (andThen (get requestData ''company_name'') call_trim) (\<lambda>company_name.
     andThen (or_else (get requestData ''overall_score'') (Inr JNull)) (\<lambda>overall_score.
     andThen (andThen (get requestData ''cover_letter_text'') call_trim) (\<lambda>cover_letter_text.
     andThen (get requestData ''scoring_results_json'') (\<lambda>scoring_results_json.
     andThen (get requestData ''resume_data_json'') (\<lambda>resume_data_json.
     andThen (get requestData ''job_data_json'') (\<lambda>job_data_json.
     andThen (or_else (andThen (get requestData ''title'')
                        (\<lambda>t. if nullish t then Inr JUndefined else call_trim t))
                (Inr JNull)) (\<lambda>title_value.
     andThen (or_else (get requestData ''status'') (Inr (JStr ''completed''))) (\<lambda>status.
     Inr (JObj
       [(''user_id'', JStr user_id_value),
        (''job_title'', job_title),
        (''company_name'', company_name),
        (''overall_score'', overall_score),
        (''cover_letter_text'', cover_letter_text),
        (''scoring_results_json'', scoring_results_json),
        (''resume_data_json'', resume_data_json),
        (''job_data_json'', job_data_json),
        (''title'', title_value),
        (''status'', status)]))))))))))"

text \<open>\<^verbatim>\<open>s.replace(p, '')\<close> for a text \<open>p\<close>: the first occurrence of \<open>p\<close> is removed.\<close>

fun remove_first :: "string \<Rightarrow> string \<Rightarrow> string" where
  "remove_first p [] = []"
| "remove_first p (c # cs) =
     (if startsWith (c # cs) p then drop (length p) (c # cs) else c # remove_first p cs)"

text \<open>
  The request, as far as the handler reads it: the method, the header
  \<^verbatim>\<open>Authorization\<close> and what \<^verbatim>\<open>req.json()\<close> resolves to or rejects with.
\<close>

record request =
  req_method :: string
  req_authorization :: "string option"
  req_json :: "exn + js"

text \<open>
  The answers of the client of the database: for \<^verbatim>\<open>auth.getUser\<close> the identifier of
  the user, if any, and whether there is an error; for the insertion the saved row and
  the message of the error, if any.
\<close>

record user_reply =
  reply_user :: "string option"
  userError :: bool

record insert_reply =
  savedGeneration :: js
  insertError :: "string option"

record client =
  getUser :: "string \<Rightarrow> exn + user_reply"
  insert_generation :: "js \<Rightarrow> exn + insert_reply"

record edge_env =
  SUPABASE_URL :: "string option"
  SUPABASE_SERVICE_ROLE_KEY :: "string option"
  createClient :: "string \<Rightarrow> string \<Rightarrow> exn + client"

text \<open>
  The replies of the handler, with their status: the answer to a preflight request
  (200); the method is not supported (405); the server is not configured (500); the
  token is absent or invalid (401); the data fail the validation (400, with the
  messages); the insertion failed (500, with the message of the database); the
  generation is saved (200, with its identifier and date); an exception was caught
  (500, with its message).
\<close>

datatype reply_body =
    Preflight
  | MethodNotSupported
  | NotConfigured
  | TokenMissing
  | TokenInvalid
  | ValidationFailed "generation_error list"
  | InsertFailed string
  | Saved js js
  | Unexpected string

datatype reply = Reply nat reply_body

text \<open>
  The end of the handler, for an authenticated user. The second component of the
  result lists the rows handed to the database.
\<close>

definition store_generation :: "client \<Rightarrow> string \<Rightarrow> js \<Rightarrow> (exn + reply) \<times> js list" where
  "store_generation supabase user_id_value requestData =
     (case validateGenerationData requestData of
        Inl e \<Rightarrow> (Inl e, [])
      | Inr errors \<Rightarrow>
          if errors \<noteq> [] then (Inr (Reply 400 (ValidationFailed errors)), [])
          else
            (case insertData user_id_value requestData of
               Inl e \<Rightarrow> (Inl e, [])
             | Inr row \<Rightarrow>
                 (case insert_generation supabase row of
                    Inl e \<Rightarrow> (Inl e, [row])
                  | Inr answer \<Rightarrow>
                      (case insertError answer of
                         Some m \<Rightarrow> (Inr (Reply 500 (InsertFailed m)), [row])
                       | None \<Rightarrow>
                           (andThen (get (savedGeneration answer) ''id'') (\<lambda>generation_id.
                            andThen (get (savedGeneration answer) ''created_at'') (\<lambda>created_at.
                            Inr (Reply 200 (Saved generation_id created_at)))),
                            [row])))))"

text \<open>The handler given to \<^verbatim>\<open>Deno.serve\<close>.\<close>

definition serve :: "edge_env \<Rightarrow> request \<Rightarrow> reply \<times> js list" where
  "serve env req =
     (let (outcome, rows) =
        (if req_method req = ''OPTIONS'' then (Inr (Reply 200 Preflight), [])
         else if req_method req \<noteq> ''POST'' then (Inr (Reply 405 MethodNotSupported), [])
         else
           (case (SUPABASE_URL env, SUPABASE_SERVICE_ROLE_KEY env) of
              (Some supabaseUrl, Some serviceRoleKey) \<Rightarrow>
                if supabaseUrl = [] \<or> serviceRoleKey = []
                then (Inr (Reply 500 NotConfigured), [])
                else
                  (case createClient env supabaseUrl serviceRoleKey of
                     Inl e \<Rightarrow> (Inl e, [])
                   | Inr supabase \<Rightarrow>
                       (case req_authorization req of
                          None \<Rightarrow> (Inr (Reply 401 TokenMissing), [])
                        | Some authHeader \<Rightarrow>
                            if authHeader = [] then (Inr (Reply 401 TokenMissing), [])
                            else
                              (case getUser supabase (remove_first ''Bearer '' authHeader) of
                                 Inl e \<Rightarrow> (Inl e, [])
                               | Inr answer \<Rightarrow>
                                   (case reply_user answer of
                                      None \<Rightarrow> (Inr (Reply 401 TokenInvalid), [])
                                    | Some user_id_value \<Rightarrow>
                                        if userError answer
                                        then (Inr (Reply 401 TokenInvalid), [])
                                        else
                                          (case req_json req of
                                             Inl e \<Rightarrow> (Inl e, [])
                                           | Inr requestData \<Rightarrow>
                                               store_generation supabase user_id_value
                                                 requestData)))))
            | _ \<Rightarrow> (Inr (Reply 500 NotConfigured), [])))
      in (case outcome of
            Inl e \<Rightarrow> (Reply 500 (Unexpected (exn_message e)), rows)
          | Inr r \<Rightarrow> (r, rows)))"

text \<open>A request reaches the validation: it is a POST of a configured server by an authenticated user, with a body that parses.\<close>

definition reaches_validation :: "edge_env \<Rightarrow> request \<Rightarrow> client \<Rightarrow> string \<Rightarrow> js \<Rightarrow> bool" where
  "reaches_validation env req supabase user_id_value requestData =
     (req_method req = ''POST''
      \<and> (case (SUPABASE_URL env, SUPABASE_SERVICE_ROLE_KEY env) of
            (Some supabaseUrl, Some serviceRoleKey) \<Rightarrow>
              supabaseUrl \<noteq> [] \<and> serviceRoleKey \<noteq> []
              \<and> createClient env supabaseUrl serviceRoleKey = Inr supabase
          | _ \<Rightarrow> False)
      \<and> (case req_authorization req of
            None \<Rightarrow> False
          | Some authHeader \<Rightarrow>
              authHeader \<noteq> []
              \<and> getUser supabase (remove_first ''Bearer '' authHeader) =
                  Inr \<lparr>reply_user = Some user_id_value, userError = False\<rparr>)
      \<and> req_json req = Inr requestData)"

text \<open>A sample request to save, with the overall score as parameter.\<close>

definition sample_client :: client where
  "sample_client =
     \<lparr>getUser = (\<lambda>token. if token = ''token''
                         then Inr \<lparr>reply_user = Some ''u1'', userError = False\<rparr>
                         else Inr \<lparr>reply_user = None, userError = True\<rparr>),
      insert_generation = (\<lambda>row. Inr
        \<lparr>savedGeneration = JObj [(''id'', JStr ''g1''), (''created_at'', JStr ''2025-01-01'')],
         insertError = None\<rparr>)\<rparr>"

definition sample_env :: edge_env where
  "sample_env =
     \<lparr>SUPABASE_URL = Some ''https://db.example'', SUPABASE_SERVICE_ROLE_KEY = Some ''key'',
      createClient = (\<lambda>u k. Inr sample_client)\<rparr>"

definition post :: "js \<Rightarrow> request" where
  "post requestData =
     \<lparr>req_method = ''POST'', req_authorization = Some ''Bearer token'',
      req_json = Inr requestData\<rparr>"

definition save_request :: "js \<Rightarrow> js" where
  "save_request score =
     JObj [(''job_title'', JStr ''Engineer''),
           (''company_name'', JStr ''Acme''),
           (''overall_score'', score),
           (''cover_letter_text'', JStr '' Dear team ''),
           (''scoring_results_json'', JObj [(''scoring_result'', JObj [])]),
           (''resume_data_json'', JObj []),
           (''job_data_json'', JObj []),
           (''title'', JStr ''Engineer at Acme''),
           (''status'', JStr ''completed'')]"

section \<open>Properties of the controller\<close>

text \<open>
  C1. Completing the analyze step with \<^verbatim>\<open>null\<close> (the job-data reset), from any state,
  leaves the cover letter empty with \<open>letterGenerated\<close> false, the scoring result null
  with \<open>scoringCompleted\<close> false and the job data null with \<open>jobAnalyzed\<close> false; the
  resume file, the resume data and \<open>resumeUploaded\<close> are as before.
\<close>

theorem handleJobAnalysis_reset_cascade:
  "coverLetter (savedData (handleJobAnalysis JNull s)) = []
   \<and> letterGenerated (handleJobAnalysis JNull s) = False
   \<and> matchingResults (savedData (handleJobAnalysis JNull s)) = JNull
   \<and> scoringCompleted (handleJobAnalysis JNull s) = False
   \<and> jobAnalysis (savedData (handleJobAnalysis JNull s)) = JNull
   \<and> jobAnalyzed (handleJobAnalysis JNull s) = False
   \<and> resume (savedData (handleJobAnalysis JNull s)) = resume (savedData s)
   \<and> resumeData (savedData (handleJobAnalysis JNull s)) = resumeData (savedData s)
   \<and> resumeUploaded (handleJobAnalysis JNull s) = resumeUploaded s"
  by (simp add: handleJobAnalysis_def)

text \<open>
  C5. The guard for advancing is false whenever the completion flag of the current step
  is false, and on the generate step it is false as well whenever the letter is being
  edited or has unsaved changes, whatever \<open>letterGenerated\<close> is.
\<close>

theorem canProceedToNext_guard:
  "(currentStep s = Upload \<and> \<not> resumeUploaded s \<longrightarrow> \<not> canProceedToNext s)
   \<and> (currentStep s = Analyze \<and> \<not> jobAnalyzed s \<longrightarrow> \<not> canProceedToNext s)
   \<and> (currentStep s = Generate \<and> \<not> letterGenerated s \<longrightarrow> \<not> canProceedToNext s)
   \<and> (currentStep s = Scoring \<and> \<not> scoringCompleted s \<longrightarrow> \<not> canProceedToNext s)
   \<and> (currentStep s = Generate
        \<and> (isCoverLetterEditing s \<or> hasUnsavedCoverLetterChanges s)
        \<longrightarrow> \<not> canProceedToNext s)"
  by (simp add: canProceedToNext_def)

theorem canProceedToNext_guard_witness:
  "(currentStep (fresh_dashboard Upload) = Upload
    \<and> \<not> resumeUploaded (fresh_dashboard Upload)
    \<and> \<not> canProceedToNext (fresh_dashboard Upload))
   \<and> (currentStep (fresh_dashboard Analyze) = Analyze
       \<and> \<not> jobAnalyzed (fresh_dashboard Analyze)
       \<and> \<not> canProceedToNext (fresh_dashboard Analyze))
   \<and> (currentStep (fresh_dashboard Generate) = Generate
       \<and> \<not> letterGenerated (fresh_dashboard Generate)
       \<and> \<not> canProceedToNext (fresh_dashboard Generate))
   \<and> (currentStep (fresh_dashboard Scoring) = Scoring
       \<and> \<not> scoringCompleted (fresh_dashboard Scoring)
       \<and> \<not> canProceedToNext (fresh_dashboard Scoring))
   \<and> (currentStep editing_dashboard = Generate
       \<and> letterGenerated editing_dashboard
       \<and> isCoverLetterEditing editing_dashboard
       \<and> \<not> canProceedToNext editing_dashboard)"
  using canProceedToNext_guard [of "fresh_dashboard Upload"]
    canProceedToNext_guard [of "fresh_dashboard Analyze"]
    canProceedToNext_guard [of "fresh_dashboard Generate"]
    canProceedToNext_guard [of "fresh_dashboard Scoring"]
    canProceedToNext_guard [of editing_dashboard]
  by (simp add: fresh_dashboard_def editing_dashboard_def)

section \<open>Properties of the file validation\<close>

lemma split_on_not_Nil: "split_on d s \<noteq> []"
  by (induction s) (auto split: list.splits)

text \<open>
  C3, as the code has it. \<^verbatim>\<open>validateFile\<close> accepts exactly the files of at most 10 MiB
  whose MIME type is one of the two allowed and whose name ends, after its last dot and
  in lower case, in \<^verbatim>\<open>pdf\<close> or \<^verbatim>\<open>docx\<close>; a file that fails has the message of the first
  of these three checks it fails. The extension is not compared with the MIME type and
  the characters of the name are not inspected.
\<close>

theorem validateFile_accepts_iff:
  "(isValid (validateFile f) \<longleftrightarrow>
      file_size f \<le> 10 * 1024 * 1024
      \<and> file_type f \<in> set ALLOWED_TYPES
      \<and> fileExtension f \<in> set ALLOWED_EXTENSIONS)
   \<and> (isValid (validateFile f) \<longrightarrow> error (validateFile f) = None)
   \<and> (file_size f > 10 * 1024 * 1024 \<longrightarrow>
        error (validateFile f) = Some (FileTooLarge 10))
   \<and> (file_size f \<le> 10 * 1024 * 1024 \<and> file_type f \<notin> set ALLOWED_TYPES \<longrightarrow>
        error (validateFile f) = Some UnsupportedType)
   \<and> (file_size f \<le> 10 * 1024 * 1024 \<and> file_type f \<in> set ALLOWED_TYPES
        \<and> fileExtension f \<notin> set ALLOWED_EXTENSIONS \<longrightarrow>
        error (validateFile f) = Some UnsupportedExtension)"
  by (simp add: validateFile_def MAX_FILE_SIZE_def)

theorem validateFile_accepts_iff_witness:
  "(file_size large_file > 10 * 1024 * 1024
    \<and> error (validateFile large_file) = Some (FileTooLarge 10))
   \<and> (file_size text_file \<le> 10 * 1024 * 1024 \<and> file_type text_file \<notin> set ALLOWED_TYPES
       \<and> error (validateFile text_file) = Some UnsupportedType)
   \<and> (file_size misnamed_file \<le> 10 * 1024 * 1024
       \<and> file_type misnamed_file \<in> set ALLOWED_TYPES
       \<and> fileExtension misnamed_file \<notin> set ALLOWED_EXTENSIONS
       \<and> error (validateFile misnamed_file) = Some UnsupportedExtension)
   \<and> (file_size good_file \<le> 10 * 1024 * 1024
       \<and> file_type good_file \<in> set ALLOWED_TYPES
       \<and> fileExtension good_file \<in> set ALLOWED_EXTENSIONS
       \<and> isValid (validateFile good_file) \<and> error (validateFile good_file) = None)"
  using validateFile_accepts_iff [of large_file] validateFile_accepts_iff [of text_file]
    validateFile_accepts_iff [of misnamed_file] validateFile_accepts_iff [of good_file]
  by (simp add: large_file_def text_file_def misnamed_file_def good_file_def
      ALLOWED_TYPES_def ALLOWED_EXTENSIONS_def fileExtension_def toLowerCase_def
      lower_char_def)

text \<open>
  C3, as the claim states it, fails: a file of type PDF named \<^verbatim>\<open>cv.docx\<close> and a PDF whose
  name holds a vertical bar are both accepted, and neither satisfies the constraints.
\<close>

theorem validateFile_spec_counterexample:
  "isValid (validateFile mismatched_file) \<and> \<not> spec_upload_constraints mismatched_file
   \<and> isValid (validateFile piped_file) \<and> \<not> spec_upload_constraints piped_file"
  by (simp add: validateFile_def mismatched_file_def piped_file_def MAX_FILE_SIZE_def
      ALLOWED_TYPES_def ALLOWED_EXTENSIONS_def fileExtension_def toLowerCase_def
      lower_char_def spec_upload_constraints_def spec_extension_matches_type_def
      dangerous_char_def)

section \<open>Properties of the URL validation\<close>

lemma matchedSite_None: "matchedSite h = None \<longleftrightarrow> (\<forall>st \<in> set supportedSites. \<not> hostMatches h st)"
  by (auto simp: matchedSite_def find_None_iff)

lemma matchedSite_Some: "matchedSite h = Some st \<Longrightarrow> st \<in> set supportedSites \<and> hostMatches h st"
  by (auto simp: matchedSite_def find_Some_iff)

text \<open>
  C2, as the code has it. For an input that is not blank and that the platform parses,
  the result is decided by the protocol, the host name and the path of the parsed URL:
  when no site of the list matches the (lower-cased) host name, the URL is rejected as
  an unsupported site; when \<open>st\<close> is the first site of the list that matches and the
  path fails its pattern, the URL is rejected for its path; when the path passes and the
  protocol is neither \<^verbatim>\<open>https:\<close> nor \<^verbatim>\<open>http:\<close>, the URL is rejected for its protocol;
  otherwise it is accepted and the name of \<open>st\<close> is reported. Two inputs with the same
  parsed components get the same result.
\<close>

theorem validateJobUrl_decides:
  assumes "trim url \<noteq> []" and "URLctor (urlToCheck (trim url)) = Some u"
  shows "((\<forall>st \<in> set supportedSites. \<not> hostMatches (toLowerCase (hostname u)) st) \<longrightarrow>
            validateJobUrl URLctor url =
              \<lparr>isValid = False, error = Some (UnsupportedSite (toLowerCase (hostname u))),
               detectedSite = None\<rparr>)
         \<and> (\<forall>st. matchedSite (toLowerCase (hostname u)) = Some st \<longrightarrow>
               st \<in> set supportedSites \<and> hostMatches (toLowerCase (hostname u)) st
               \<and> (\<not> test (pathPattern st) (pathname u) \<longrightarrow>
                     validateJobUrl URLctor url =
                       \<lparr>isValid = False, error = Some (WrongPath (name st)),
                        detectedSite = None\<rparr>)
               \<and> (test (pathPattern st) (pathname u)
                    \<and> protocol u \<noteq> ''https:'' \<and> protocol u \<noteq> ''http:'' \<longrightarrow>
                     validateJobUrl URLctor url =
                       \<lparr>isValid = False, error = Some WrongProtocol, detectedSite = None\<rparr>)
               \<and> (test (pathPattern st) (pathname u)
                    \<and> (protocol u = ''https:'' \<or> protocol u = ''http:'') \<longrightarrow>
                     validateJobUrl URLctor url =
                       \<lparr>isValid = True, error = None, detectedSite = Some (name st)\<rparr>))
         \<and> (\<forall>URLctor' url'. trim url' \<noteq> [] \<and> URLctor' (urlToCheck (trim url')) = Some u \<longrightarrow>
               validateJobUrl URLctor' url' = validateJobUrl URLctor url)"
proof -
  have nonempty: "url \<noteq> []"
    using assms(1) by (auto simp: trim_def)
  have unfold: "validateJobUrl C x =
      (case matchedSite (toLowerCase (hostname u)) of
         None \<Rightarrow>
           \<lparr>isValid = False, error = Some (UnsupportedSite (toLowerCase (hostname u))),
            detectedSite = None\<rparr>
       | Some st \<Rightarrow>
           if \<not> test (pathPattern st) (pathname u)
           then \<lparr>isValid = False, error = Some (WrongPath (name st)), detectedSite = None\<rparr>
           else if protocol u \<noteq> ''https:'' \<and> protocol u \<noteq> ''http:''
           then \<lparr>isValid = False, error = Some WrongProtocol, detectedSite = None\<rparr>
           else \<lparr>isValid = True, error = None, detectedSite = Some (name st)\<rparr>)"
    if "trim x \<noteq> []" and "C (urlToCheck (trim x)) = Some u" for C x
  proof -
    from that(1) have "x \<noteq> []" by (auto simp: trim_def)
    with that show ?thesis by (simp add: validateJobUrl_def)
  qed
  have none: "(\<forall>st \<in> set supportedSites. \<not> hostMatches (toLowerCase (hostname u)) st) \<longrightarrow>
      validateJobUrl URLctor url =
        \<lparr>isValid = False, error = Some (UnsupportedSite (toLowerCase (hostname u))),
         detectedSite = None\<rparr>"
  proof
    assume "\<forall>st \<in> set supportedSites. \<not> hostMatches (toLowerCase (hostname u)) st"
    then have "matchedSite (toLowerCase (hostname u)) = None"
      by (simp add: matchedSite_None)
    then show "validateJobUrl URLctor url =
        \<lparr>isValid = False, error = Some (UnsupportedSite (toLowerCase (hostname u))),
         detectedSite = None\<rparr>"
      by (simp add: unfold [where C = URLctor and x = url, OF assms])
  qed
  have some: "\<forall>st. matchedSite (toLowerCase (hostname u)) = Some st \<longrightarrow>
      st \<in> set supportedSites \<and> hostMatches (toLowerCase (hostname u)) st
      \<and> (\<not> test (pathPattern st) (pathname u) \<longrightarrow>
            validateJobUrl URLctor url =
              \<lparr>isValid = False, error = Some (WrongPath (name st)), detectedSite = None\<rparr>)
      \<and> (test (pathPattern st) (pathname u)
           \<and> protocol u \<noteq> ''https:'' \<and> protocol u \<noteq> ''http:'' \<longrightarrow>
            validateJobUrl URLctor url =
              \<lparr>isValid = False, error = Some WrongProtocol, detectedSite = None\<rparr>)
      \<and> (test (pathPattern st) (pathname u)
           \<and> (protocol u = ''https:'' \<or> protocol u = ''http:'') \<longrightarrow>
            validateJobUrl URLctor url =
              \<lparr>isValid = True, error = None, detectedSite = Some (name st)\<rparr>)"
    using matchedSite_Some unfold [where C = URLctor and x = url, OF assms] by auto
  have same: "\<forall>URLctor' url'. trim url' \<noteq> [] \<and> URLctor' (urlToCheck (trim url')) = Some u \<longrightarrow>
      validateJobUrl URLctor' url' = validateJobUrl URLctor url"
    by (auto simp: unfold [where C = URLctor and x = url, OF assms] unfold)
  from none some same show ?thesis by blast
qed

lemma sample_trims:
  "trim httpx_url = httpx_url" "trim headhunter_url = ''HH.ru/vacancy/123456''"
  "trim employer_url = employer_url" "trim other_url = other_url"
  by (simp_all add: trim_def is_space_def httpx_url_def headhunter_url_def employer_url_def
      other_url_def)

lemma sample_parses:
  "sample_URL (urlToCheck (trim httpx_url)) = Some httpx_parts"
  "sample_URL (urlToCheck (trim headhunter_url)) = Some headhunter_parts"
  "sample_URL (urlToCheck (trim employer_url)) = Some employer_parts"
  "sample_URL (urlToCheck (trim other_url)) = Some other_parts"
  by (simp_all only: sample_trims)
    (simp_all add: urlToCheck_def startsWith_def sample_URL_def httpx_url_def
      employer_url_def other_url_def)

lemma sample_sites:
  "matchedSite (toLowerCase (hostname httpx_parts)) = Some HeadHunter"
  "matchedSite (toLowerCase (hostname headhunter_parts)) = Some HeadHunter"
  "matchedSite (toLowerCase (hostname employer_parts)) = Some HeadHunter"
  "matchedSite (toLowerCase (hostname other_parts)) = None"
  by (simp_all add: matchedSite_def httpx_parts_def headhunter_parts_def employer_parts_def
      other_parts_def HeadHunter_def supportedSites_def hostMatches_def toLowerCase_def
      lower_char_def endsWith_def)

lemma sample_paths:
  "test (pathPattern HeadHunter) (pathname httpx_parts)"
  "test (pathPattern HeadHunter) (pathname headhunter_parts)"
  "\<not> test (pathPattern HeadHunter) (pathname employer_parts)"
  by (simp_all add: httpx_parts_def headhunter_parts_def employer_parts_def HeadHunter_def
      startsWith_def is_digit_def)

theorem validateJobUrl_decides_witness:
  "validateJobUrl sample_URL headhunter_url =
     \<lparr>isValid = True, error = None, detectedSite = Some ''HeadHunter''\<rparr>
   \<and> validateJobUrl sample_URL employer_url =
     \<lparr>isValid = False, error = Some (WrongPath ''HeadHunter''), detectedSite = None\<rparr>
   \<and> validateJobUrl sample_URL other_url =
     \<lparr>isValid = False, error = Some (UnsupportedSite ''example.com''), detectedSite = None\<rparr>
   \<and> validateJobUrl sample_URL httpx_url =
     \<lparr>isValid = False, error = Some WrongProtocol, detectedSite = None\<rparr>"
proof -
  have t: "trim httpx_url \<noteq> []" "trim headhunter_url \<noteq> []" "trim employer_url \<noteq> []"
    "trim other_url \<noteq> []"
    by (simp_all add: trim_def is_space_def httpx_url_def headhunter_url_def employer_url_def
        other_url_def)
  have p: "protocol headhunter_parts = ''https:''" "protocol httpx_parts \<noteq> ''https:''"
    "protocol httpx_parts \<noteq> ''http:''"
    by (simp_all add: headhunter_parts_def httpx_parts_def)
  have n: "name HeadHunter = ''HeadHunter''"
    "toLowerCase (hostname other_parts) = ''example.com''"
    by (simp_all add: HeadHunter_def other_parts_def toLowerCase_def lower_char_def)
  have "validateJobUrl sample_URL headhunter_url =
      \<lparr>isValid = True, error = None, detectedSite = Some ''HeadHunter''\<rparr>"
    using validateJobUrl_decides
        [where URLctor = sample_URL and url = headhunter_url and u = headhunter_parts,
          OF t(2) sample_parses(2)] sample_sites(2) sample_paths(2)
      p(1) n(1) by simp
  moreover have "validateJobUrl sample_URL employer_url =
      \<lparr>isValid = False, error = Some (WrongPath ''HeadHunter''), detectedSite = None\<rparr>"
    using validateJobUrl_decides
        [where URLctor = sample_URL and url = employer_url and u = employer_parts,
          OF t(3) sample_parses(3)] sample_sites(3) sample_paths(3)
      n(1) by simp
  moreover have "validateJobUrl sample_URL other_url =
      \<lparr>isValid = False, error = Some (UnsupportedSite ''example.com''), detectedSite = None\<rparr>"
    using validateJobUrl_decides
        [where URLctor = sample_URL and url = other_url and u = other_parts,
          OF t(4) sample_parses(4)] sample_sites(4) n(2)
    by (simp add: matchedSite_None)
  moreover have "validateJobUrl sample_URL httpx_url =
      \<lparr>isValid = False, error = Some WrongProtocol, detectedSite = None\<rparr>"
    using validateJobUrl_decides
        [where URLctor = sample_URL and url = httpx_url and u = httpx_parts,
          OF t(1) sample_parses(1)] sample_sites(1) sample_paths(1)
      p(2,3) by simp
  ultimately show ?thesis by simp
qed

text \<open>
  C2, as the claim states it, fails: \<^verbatim>\<open>httpx://hh.ru/vacancy/1\<close> parses, its host name
  is HeadHunter's and its path matches HeadHunter's pattern, and it is rejected.
\<close>

theorem validateJobUrl_protocol_counterexample:
  "sample_URL (urlToCheck (trim httpx_url)) = Some httpx_parts
   \<and> matchedSite (toLowerCase (hostname httpx_parts)) = Some HeadHunter
   \<and> test (pathPattern HeadHunter) (pathname httpx_parts)
   \<and> \<not> isValid (validateJobUrl sample_URL httpx_url)"
proof -
  have t: "httpx_url \<noteq> []" "trim httpx_url \<noteq> []"
    by (simp_all add: trim_def is_space_def httpx_url_def)
  have p: "protocol httpx_parts \<noteq> ''https:''" "protocol httpx_parts \<noteq> ''http:''"
    by (simp_all add: httpx_parts_def)
  have "validateJobUrl sample_URL httpx_url =
      \<lparr>isValid = False, error = Some WrongProtocol, detectedSite = None\<rparr>"
    by (simp add: validateJobUrl_def t p sample_parses(1) sample_sites(1) sample_paths(1))
  then show ?thesis
    by (simp add: sample_parses(1) sample_sites(1) sample_paths(1))
qed

section \<open>Properties of the extraction\<close>

lemma optc_Inr: "optc v k = Inr (if nullish v then JUndefined else member_of v k)"
  by (simp add: optc_def get_def)

lemma optc2_Inr:
  "optc2 v k1 k2 =
     Inr (if nullish v \<or> nullish (member_of v k1) then JUndefined
          else member_of (member_of v k1) k2)"
  by (simp add: optc2_def optc_Inr andThen_def nullish_def)

lemma or_else_Inr: "or_else (Inr a) (Inr b) = Inr (js_or a b)"
  by (simp add: or_else_def andThen_def js_or_def)

lemma andThen_Inr: "andThen (Inr a) f = f a"
  by (simp add: andThen_def)

lemma optc_at_path: "optc v k = Inr (at_path v [k])"
  by (simp add: optc_Inr)

lemma optc2_at_path: "optc2 v k1 k2 = Inr (at_path v [k1, k2])"
  by (simp add: optc2_Inr)

lemma or_else_first: "or_else (Inr c) (Inr (first_truthy cs d)) = Inr (first_truthy (c # cs) d)"
  by (simp add: or_else_Inr js_or_def)

lemma or_else_default: "or_else (Inr c) (Inr d) = Inr (first_truthy [c] d)"
  by (simp add: or_else_Inr js_or_def)

lemma extractDisplayData_resolves: "extractDisplayData rawData = Inr (display_of rawData)"
  unfolding extractDisplayData_def optc_at_path optc2_at_path
  by (simp add: or_else_Inr andThen_Inr display_of_def resolve_def js_or_def)

lemma resolve_missing:
  "list_all (\<lambda>p. \<not> truthy (at_path rawData p)) paths \<Longrightarrow> resolve rawData paths d = d"
  by (induction paths) (simp_all add: resolve_def)

lemma resolve_found:
  "list_all (\<lambda>p. \<not> truthy (at_path rawData p)) before \<Longrightarrow> truthy (at_path rawData p) \<Longrightarrow>
   resolve rawData (before @ p # after) d = at_path rawData p"
  by (induction before) (simp_all add: resolve_def)

text \<open>
  C8. For the response \<^verbatim>\<open>{personal_info:{first_name:"Anna"}, skills:{hardSkills:["Go"]}}\<close>
  the extraction returns, without throwing, the first name Anna and the hard skills
  \<^verbatim>\<open>["Go"]\<close>, empty arrays for the soft skills and the languages and the empty string for
  every other field. For every response the extraction returns, without throwing, the
  object whose fields are read from the response along their candidate paths (snake
  case and camel case, nested and flat): a field none of whose candidates is truthy in
  the response, as when it is missing or spelt in a way that is no candidate, gets its
  default, the empty string or the empty array; otherwise it is the first truthy
  candidate.
\<close>

theorem extractDisplayData_defaults:
  "extractDisplayData anna_response =
     Inr (JObj
       [(''desired_position'', JStr []),
        (''personal_info'', JObj [(''first_name'', JStr ''Anna''), (''last_name'', JStr [])]),
        (''skills'', JObj [(''hard_skills'', JArr [JStr ''Go'']), (''soft_skills'', JArr []),
                          (''languages'', JArr [])]),
        (''summary'', JStr [])])
   \<and> extractDisplayData rawData = Inr (display_of rawData)
   \<and> (list_all (\<lambda>p. \<not> truthy (at_path rawData p)) paths \<longrightarrow>
         resolve rawData paths d = d)
   \<and> (list_all (\<lambda>p. \<not> truthy (at_path rawData p)) before \<and> truthy (at_path rawData p) \<longrightarrow>
         resolve rawData (before @ p # after) d = at_path rawData p)"
proof -
  have "extractDisplayData anna_response =
     Inr (JObj
       [(''desired_position'', JStr []),
        (''personal_info'', JObj [(''first_name'', JStr ''Anna''), (''last_name'', JStr [])]),
        (''skills'', JObj [(''hard_skills'', JArr [JStr ''Go'']), (''soft_skills'', JArr []),
                          (''languages'', JArr [])]),
        (''summary'', JStr [])])"
    by (simp add: extractDisplayData_resolves display_of_def resolve_def anna_response_def
        nullish_def lookup_def)
  then show ?thesis
    using extractDisplayData_resolves resolve_missing resolve_found by blast
qed

theorem extractDisplayData_defaults_witness:
  "list_all (\<lambda>p. \<not> truthy (at_path bob_response p))
     [[''personal_info'', ''last_name''], [''personalInfo'', ''last_name''], [''last_name''],
      [''lastName'']]
   \<and> list_all (\<lambda>p. \<not> truthy (at_path bob_response p))
     [[''personal_info'', ''first_name''], [''personalInfo'', ''first_name''], [''first_name'']]
   \<and> truthy (at_path bob_response [''firstName''])
   \<and> extractDisplayData bob_response =
     Inr (JObj
       [(''desired_position'', JStr []),
        (''personal_info'', JObj [(''first_name'', JStr ''Bob''), (''last_name'', JStr [])]),
        (''skills'', JObj [(''hard_skills'', JArr []), (''soft_skills'', JArr []),
                          (''languages'', JArr [])]),
        (''summary'', JStr [])])"
proof -
  have m: "list_all (\<lambda>p. \<not> truthy (at_path bob_response p))
     [[''personal_info'', ''last_name''], [''personalInfo'', ''last_name''], [''last_name''],
      [''lastName'']]"
    by (simp add: bob_response_def nullish_def lookup_def)
  have b: "list_all (\<lambda>p. \<not> truthy (at_path bob_response p))
     [[''personal_info'', ''first_name''], [''personalInfo'', ''first_name''], [''first_name'']]"
    by (simp add: bob_response_def nullish_def lookup_def)
  have t: "truthy (at_path bob_response [''firstName''])"
    "at_path bob_response [''firstName''] = JStr ''Bob''"
    by (simp_all add: bob_response_def nullish_def lookup_def)
  have others: "resolve bob_response [[''desired_position''], [''desiredPosition'']] (JStr []) = JStr []"
    "resolve bob_response
       [[''skills'', ''hard_skills''], [''skills'', ''hardSkills''], [''hardSkills'']] (JArr [])
       = JArr []"
    "resolve bob_response
       [[''skills'', ''soft_skills''], [''skills'', ''softSkills''], [''softSkills'']] (JArr [])
       = JArr []"
    "resolve bob_response [[''skills'', ''languages''], [''languages'']] (JArr []) = JArr []"
    "resolve bob_response [[''summary''], [''description'']] (JStr []) = JStr []"
    by (simp_all add: resolve_def bob_response_def nullish_def lookup_def)
  note inst = extractDisplayData_defaults
    [where rawData = bob_response
      and paths = "[[''personal_info'', ''last_name''], [''personalInfo'', ''last_name''],
                    [''last_name''], [''lastName'']]"
      and before = "[[''personal_info'', ''first_name''], [''personalInfo'', ''first_name''],
                     [''first_name'']]"
      and p = "[''firstName'']" and after = "[]" and d = "JStr []"]
  from inst m have last: "resolve bob_response
      [[''personal_info'', ''last_name''], [''personalInfo'', ''last_name''], [''last_name''],
       [''lastName'']] (JStr []) = JStr []"
    by blast
  from inst b t have first: "resolve bob_response
      [[''personal_info'', ''first_name''], [''personalInfo'', ''first_name''],
       [''first_name''], [''firstName'']] (JStr []) = JStr ''Bob''"
    by simp
  from inst have "extractDisplayData bob_response = Inr (display_of bob_response)"
    by blast
  with first last others m b t show ?thesis
    by (simp add: display_of_def)
qed

section \<open>Properties of the scoring request\<close>

lemma truthy_not_nullish: "truthy v \<Longrightarrow> \<not> nullish v"
  by (auto simp: nullish_def)

lemma get_truthy: "truthy v \<Longrightarrow> get v k = Inr (member_of v k)"
  by (simp add: get_def truthy_not_nullish)

lemma check_required_find:
  "truthy sr \<Longrightarrow>
   check_required sr fs =
     (case find (\<lambda>field. member_of sr field = JUndefined) fs of
        None \<Rightarrow> None
      | Some field \<Rightarrow> Some (MissingField (''scoring_result.'' @ field)))"
  by (induction fs) (simp_all add: get_truthy)

lemma catch_cannot_read:
  "scoring_catch (cannot_read JNull ''score'') = Uncaught (cannot_read JNull ''score'')"
  by (simp add: scoring_catch_def cannot_read_def str_includes_def startsWith_def)

lemma inspect_item_fields:
  "item \<noteq> JUndefined \<Longrightarrow>
   inspect_item item itemFields =
     (if item = JNull then Some (cannot_read JNull ''score'') else None)"
  by (simp add: itemFields_def get_def nullish_def)

lemma inspect_breakdown_truthy:
  "truthy b \<Longrightarrow>
   inspect_breakdown b fs =
     (if list_ex (\<lambda>field. member_of b field = JNull) fs
      then Some (cannot_read JNull ''score'') else None)"
  by (induction fs) (auto simp: get_truthy inspect_item_fields)

lemma inspect_breakdown_falsy: "\<not> truthy b \<Longrightarrow> inspect_breakdown b fs = None"
  by (induction fs) simp_all

lemma any_falsy_truthy:
  "truthy b \<Longrightarrow>
   any_falsy b fs = Inr (\<not> list_all (\<lambda>field. truthy (member_of b field)) fs)"
  by (induction fs) (simp_all add: get_truthy)

lemma scoreFields_ok:
  "truthy sr \<Longrightarrow> truthy b \<Longrightarrow> list_all (\<lambda>field. truthy (member_of b field)) breakdownFields \<Longrightarrow>
   scoreFields sr b =
     Inr [(''total_score'', member_of sr ''total_score''),
          (''breakdown.hard_skills.score'', member_of (member_of b ''hard_skills'') ''score''),
          (''breakdown.soft_skills.score'', member_of (member_of b ''soft_skills'') ''score''),
          (''breakdown.experience_match.score'',
             member_of (member_of b ''experience_match'') ''score''),
          (''breakdown.position_match.score'',
             member_of (member_of b ''position_match'') ''score'')]"
  by (simp add: scoreFields_def breakdownFields_def get_truthy andThen_def)

lemma null_entry_not_ok: "null_entry j \<Longrightarrow> \<not> breakdown_ok j"
proof -
  assume "null_entry j"
  then obtain field where "field \<in> set breakdownFields"
    and "member_of (breakdown_of j) field = JNull"
    by (auto simp: null_entry_def list_ex_iff)
  then have "\<exists>field \<in> set breakdownFields. \<not> truthy (member_of (breakdown_of j) field)"
    by (intro bexI [of _ field]) simp_all
  then show ?thesis
    by (simp add: breakdown_ok_def list_all_iff)
qed

lemma first_missing_None: "first_missing j = None \<longleftrightarrow> fields_present j"
  by (auto simp: first_missing_def fields_present_def find_None_iff list_all_iff)

text \<open>The validation of the response, case by case, in the order of the code.\<close>

lemma check_response_cases:
  "check_response j =
     (if \<not> is_object j then Inl NotAnObject
      else if \<not> truthy (scoring_result_of j) then Inl (MissingField ''scoring_result'')
      else
        (case first_missing j of
           Some field \<Rightarrow> Inl (MissingField (''scoring_result.'' @ field))
         | None \<Rightarrow>
             if null_entry j then Inl (Uncaught (cannot_read JNull ''score''))
             else if \<not> breakdown_ok j then Inl BadBreakdown
             else Inr (j, map fst (filter (\<lambda>scoreField. \<not> in_range (snd scoreField))
                                      (scores_of j)))))"
proof (cases "is_object j")
  case False
  then show ?thesis
    by (auto simp: check_response_def is_object_def)
next
  case obj: True
  then have tj: "truthy j" and ty: "typeof j = ''object''"
    by (simp_all add: is_object_def)
  have sr: "get j ''scoring_result'' = Inr (scoring_result_of j)"
    by (simp add: get_truthy tj scoring_result_of_def)
  show ?thesis
  proof (cases "truthy (scoring_result_of j)")
    case False
    with obj tj ty sr show ?thesis
      by (simp add: check_response_def)
  next
    case tsr: True
    have req: "check_required (scoring_result_of j) requiredFields =
        (case first_missing j of
           None \<Rightarrow> None
         | Some field \<Rightarrow> Some (MissingField (''scoring_result.'' @ field)))"
      by (simp add: check_required_find tsr first_missing_def)
    have br: "get (scoring_result_of j) ''breakdown'' = Inr (breakdown_of j)"
      by (simp add: get_truthy tsr breakdown_of_def)
    show ?thesis
    proof (cases "first_missing j")
      case (Some field)
      with obj tj ty sr tsr req show ?thesis
        by (simp add: check_response_def)
    next
      case None
      show ?thesis
      proof (cases "truthy (breakdown_of j)")
        case False
        then have "inspect_breakdown (breakdown_of j) breakdownFields = None"
          by (rule inspect_breakdown_falsy)
        with False obj tj ty sr tsr req br None show ?thesis
          by (simp add: check_response_def null_entry_def breakdown_ok_def)
      next
        case tb: True
        show ?thesis
        proof (cases "null_entry j")
          case True
          with tb have "inspect_breakdown (breakdown_of j) breakdownFields =
              Some (cannot_read JNull ''score'')"
            by (simp add: inspect_breakdown_truthy null_entry_def)
          with True obj tj ty sr tsr req br None show ?thesis
            by (simp add: check_response_def catch_cannot_read)
        next
          case nn: False
          with tb have ins: "inspect_breakdown (breakdown_of j) breakdownFields = None"
            by (simp add: inspect_breakdown_truthy null_entry_def)
          have af: "any_falsy (breakdown_of j) breakdownFields = Inr (\<not> breakdown_ok j)"
            by (simp add: any_falsy_truthy tb breakdown_ok_def)
          show ?thesis
          proof (cases "breakdown_ok j")
            case False
            with nn ins af obj tj ty sr tsr req br None tb show ?thesis
              by (simp add: check_response_def)
          next
            case True
            then have "scoreFields (scoring_result_of j) (breakdown_of j) = Inr (scores_of j)"
              by (simp add: scoreFields_ok tsr tb breakdown_ok_def scores_of_def)
            with True nn ins af obj tj ty sr tsr req br None tb show ?thesis
              by (simp add: check_response_def)
          qed
        qed
      qed
    qed
  qed
qed

lemma perform_ok_response:
  "validateScoringData resume_data jobData userId = Inr [] \<Longrightarrow>
   fetch (requestPayload resume_data jobData userId) = Resolved r \<Longrightarrow>
   resp_ok r \<Longrightarrow> resp_json r = Inr j \<Longrightarrow>
   performScoringAnalysis fetch resume_data jobData userId = check_response j"
  by (simp add: performScoringAnalysis_def)

lemma sample_input_valid: "validateScoringData anna_resume acme_job dev_user = Inr []"
  by (simp add: validateScoringData_def resume_errors_def job_errors_def user_errors_def
      skills_errors_def experience_check_def valid_experience_def valid_skill_def blank_def
      call_trim_def get_length_def length_of_def iterate_def get_def andThen_def nullish_def
      lookup_def trim_def is_space_def anna_resume_def acme_job_def dev_user_def)

lemma perform_sample:
  "performScoringAnalysis (answering j) anna_resume acme_job dev_user = check_response j"
  by (simp add: performScoringAnalysis_def sample_input_valid answering_def ok_response_def)

lemmas payload_defs =
  scoring_payload_def score_item_def scoring_result_of_def breakdown_of_def lookup_def
  is_object_def fields_present_def breakdown_ok_def structure_ok_def null_entry_def
  first_missing_def requiredFields_def breakdownFields_def

lemma answering_simps:
  "answering j (requestPayload anna_resume acme_job dev_user) = Resolved (ok_response j)"
  "resp_ok (ok_response j)" "resp_json (ok_response j) = Inr j"
  by (simp_all add: answering_def ok_response_def)

text \<open>
  C4, as the code has it. When the service answers with an ok response whose JSON fails
  the structural validation, \<^verbatim>\<open>performScoringAnalysis\<close> ends with an error and returns no
  result. A response that is not an object gives the error saying so; a response
  without a truthy \<^verbatim>\<open>scoring_result\<close> gives the error naming \<^verbatim>\<open>scoring_result\<close>; a
  \<^verbatim>\<open>scoring_result\<close> lacking one of its five required fields gives the error naming the
  first that is missing; when the five fields are there and no entry of \<^verbatim>\<open>breakdown\<close> is
  null, a \<^verbatim>\<open>breakdown\<close> that is falsy, or that has an entry missing or otherwise falsy,
  gives the one fixed error about the structure of \<^verbatim>\<open>breakdown\<close>, which does not name
  the entry.
\<close>

theorem invalid_structure_raises:
  assumes "validateScoringData resume_data jobData userId = Inr []"
    and "fetch (requestPayload resume_data jobData userId) = Resolved r"
    and "resp_ok r" and "resp_json r = Inr j" and "\<not> structure_ok j"
  shows "(\<exists>e. performScoringAnalysis fetch resume_data jobData userId = Inl e)
         \<and> (\<not> is_object j \<longrightarrow> performScoringAnalysis fetch resume_data jobData userId = Inl NotAnObject)
         \<and> (is_object j \<and> \<not> truthy (scoring_result_of j) \<longrightarrow>
               performScoringAnalysis fetch resume_data jobData userId = Inl (MissingField ''scoring_result''))
         \<and> (\<forall>field. is_object j \<and> truthy (scoring_result_of j)
               \<and> first_missing j = Some field \<longrightarrow>
               performScoringAnalysis fetch resume_data jobData userId =
                 Inl (MissingField (''scoring_result.'' @ field)))
         \<and> (is_object j \<and> truthy (scoring_result_of j) \<and> fields_present j
               \<and> \<not> null_entry j \<longrightarrow>
               performScoringAnalysis fetch resume_data jobData userId = Inl BadBreakdown)"
proof -
  have eq: "performScoringAnalysis fetch resume_data jobData userId = check_response j"
    by (rule perform_ok_response [where fetch = fetch, OF assms(1-4)])
  have "\<exists>e. check_response j = Inl e"
    using assms(5)
    by (auto simp: check_response_cases structure_ok_def first_missing_None [symmetric]
        split: option.splits)
  moreover have "\<not> is_object j \<longrightarrow> check_response j = Inl NotAnObject"
    by (simp add: check_response_cases)
  moreover have "is_object j \<and> \<not> truthy (scoring_result_of j) \<longrightarrow>
      check_response j = Inl (MissingField ''scoring_result'')"
    by (simp add: check_response_cases)
  moreover have "\<forall>field. is_object j \<and> truthy (scoring_result_of j)
      \<and> first_missing j = Some field \<longrightarrow>
      check_response j = Inl (MissingField (''scoring_result.'' @ field))"
    by (simp add: check_response_cases)
  moreover have "is_object j \<and> truthy (scoring_result_of j) \<and> fields_present j
      \<and> \<not> null_entry j \<longrightarrow> check_response j = Inl BadBreakdown"
    using assms(5)
    by (auto simp: check_response_cases structure_ok_def first_missing_None [symmetric])
  ultimately show ?thesis
    unfolding eq by blast
qed

theorem invalid_structure_raises_witness:
  "performScoringAnalysis (answering (JStr ''busy'')) anna_resume acme_job dev_user = Inl NotAnObject
   \<and> performScoringAnalysis (answering (JObj [])) anna_resume acme_job dev_user =
       Inl (MissingField ''scoring_result'')
   \<and> performScoringAnalysis (answering payload_without_recommendation) anna_resume acme_job dev_user =
       Inl (MissingField ''scoring_result.recommendation'')
   \<and> performScoringAnalysis (answering payload_without_soft_skills) anna_resume acme_job dev_user =
       Inl BadBreakdown
   \<and> (\<exists>e. performScoringAnalysis (answering payload_null_entry) anna_resume acme_job dev_user = Inl e)"
proof -
  have a: "\<not> structure_ok (JStr ''busy'')" "\<not> is_object (JStr ''busy'')"
    by (simp_all add: payload_defs)
  have b: "\<not> structure_ok (JObj [])" "is_object (JObj [])"
    "\<not> truthy (scoring_result_of (JObj []))"
    by (simp_all add: payload_defs)
  have c: "\<not> structure_ok payload_without_recommendation"
    "is_object payload_without_recommendation"
    "truthy (scoring_result_of payload_without_recommendation)"
    "first_missing payload_without_recommendation = Some ''recommendation''"
    by (simp_all add: payload_without_recommendation_def payload_defs)
  have d: "\<not> structure_ok payload_without_soft_skills"
    "is_object payload_without_soft_skills"
    "truthy (scoring_result_of payload_without_soft_skills)"
    "fields_present payload_without_soft_skills"
    "\<not> null_entry payload_without_soft_skills"
    by (simp_all add: payload_without_soft_skills_def payload_defs)
  have e: "\<not> structure_ok payload_null_entry"
    by (simp add: payload_null_entry_def payload_defs)
  from invalid_structure_raises
      [where fetch = "answering (JStr ''busy'')" and resume_data = anna_resume
        and jobData = acme_job and userId = dev_user
        and r = "ok_response (JStr ''busy'')" and j = "JStr ''busy''",
        OF sample_input_valid answering_simps a(1)] a(2)
  have "performScoringAnalysis (answering (JStr ''busy'')) anna_resume acme_job dev_user = Inl NotAnObject"
    by blast
  moreover from invalid_structure_raises
      [where fetch = "answering (JObj [])" and resume_data = anna_resume
        and jobData = acme_job and userId = dev_user
        and r = "ok_response (JObj [])" and j = "JObj []",
        OF sample_input_valid answering_simps b(1)] b(2,3)
  have "performScoringAnalysis (answering (JObj [])) anna_resume acme_job dev_user =
      Inl (MissingField ''scoring_result'')"
    by blast
  moreover from invalid_structure_raises
      [where fetch = "answering payload_without_recommendation" and resume_data = anna_resume
        and jobData = acme_job and userId = dev_user
        and r = "ok_response payload_without_recommendation" and j = payload_without_recommendation,
        OF sample_input_valid answering_simps c(1)] c(2,3,4)
  have "performScoringAnalysis (answering payload_without_recommendation) anna_resume acme_job dev_user =
      Inl (MissingField (''scoring_result.'' @ ''recommendation''))"
    by blast
  moreover from invalid_structure_raises
      [where fetch = "answering payload_without_soft_skills" and resume_data = anna_resume
        and jobData = acme_job and userId = dev_user
        and r = "ok_response payload_without_soft_skills" and j = payload_without_soft_skills,
        OF sample_input_valid answering_simps d(1)] d(2,3,4,5)
  have "performScoringAnalysis (answering payload_without_soft_skills) anna_resume acme_job dev_user =
      Inl BadBreakdown"
    by blast
  moreover from invalid_structure_raises
      [where fetch = "answering payload_null_entry" and resume_data = anna_resume
        and jobData = acme_job and userId = dev_user
        and r = "ok_response payload_null_entry" and j = payload_null_entry,
        OF sample_input_valid answering_simps e]
  have "\<exists>e. performScoringAnalysis (answering payload_null_entry) anna_resume acme_job dev_user = Inl e"
    by blast
  ultimately show ?thesis by simp
qed

text \<open>
  C4, as the claim states it, fails: for a response whose \<^verbatim>\<open>breakdown\<close> lacks
  \<^verbatim>\<open>soft_skills\<close> the error is the fixed one about the structure of \<^verbatim>\<open>breakdown\<close>, not
  an error naming \<^verbatim>\<open>scoring_result.breakdown.soft_skills\<close>.
\<close>

theorem missing_soft_skills_counterexample:
  "member_of (breakdown_of payload_without_soft_skills) ''soft_skills'' = JUndefined
   \<and> performScoringAnalysis (answering payload_without_soft_skills) anna_resume acme_job dev_user =
       Inl BadBreakdown
   \<and> performScoringAnalysis (answering payload_without_soft_skills) anna_resume acme_job dev_user \<noteq>
       Inl (MissingField ''scoring_result.breakdown.soft_skills'')"
proof -
  have "check_response payload_without_soft_skills = Inl BadBreakdown"
    unfolding check_response_cases
    by (simp add: payload_without_soft_skills_def payload_defs)
  then have "performScoringAnalysis (answering payload_without_soft_skills) anna_resume acme_job dev_user =
      Inl BadBreakdown"
    by (simp add: perform_sample)
  moreover have
    "member_of (breakdown_of payload_without_soft_skills) ''soft_skills'' = JUndefined"
    by (simp add: payload_without_soft_skills_def payload_defs)
  ultimately show ?thesis by simp
qed

text \<open>
  C6. A response that passes the structural validation is returned whatever its
  scores are: a score that is not a number from 0 to 100 only puts its name among the
  warnings. For the total score 105 (and the soft-skills score -5) the response comes
  back with the two warnings.
\<close>

theorem out_of_range_scores_returned:
  assumes "validateScoringData resume_data jobData userId = Inr []"
    and "fetch (requestPayload resume_data jobData userId) = Resolved r"
    and "resp_ok r" and "resp_json r = Inr j" and "structure_ok j"
  shows "performScoringAnalysis fetch resume_data jobData userId =
           Inr (j, map fst (filter (\<lambda>scoreField. \<not> in_range (snd scoreField)) (scores_of j)))"
proof -
  from assms(5) have "is_object j" "truthy (scoring_result_of j)" "fields_present j"
    "breakdown_ok j"
    by (simp_all add: structure_ok_def)
  moreover from this have "first_missing j = None" "\<not> null_entry j"
    using first_missing_None null_entry_not_ok by blast+
  ultimately show ?thesis
    by (simp add: perform_ok_response [where fetch = fetch, OF assms(1-4)]
        check_response_cases)
qed

theorem out_of_range_scores_returned_witness:
  "structure_ok payload_105
   \<and> \<not> in_range (member_of (scoring_result_of payload_105) ''total_score'')
   \<and> performScoringAnalysis (answering payload_105) anna_resume acme_job dev_user =
       Inr (payload_105, [''total_score'', ''breakdown.soft_skills.score''])"
proof -
  have s: "structure_ok payload_105"
    by (simp add: payload_105_def payload_defs)
  have w: "map fst (filter (\<lambda>scoreField. \<not> in_range (snd scoreField)) (scores_of payload_105))
      = [''total_score'', ''breakdown.soft_skills.score'']"
    by (simp add: payload_105_def payload_defs scores_of_def in_range_def)
  have t: "\<not> in_range (member_of (scoring_result_of payload_105) ''total_score'')"
    by (simp add: payload_105_def payload_defs in_range_def)
  from out_of_range_scores_returned
      [where fetch = "answering payload_105" and resume_data = anna_resume
        and jobData = acme_job and userId = dev_user
        and r = "ok_response payload_105" and j = payload_105,
        OF sample_input_valid answering_simps s] s w t
  show ?thesis
    by simp
qed

section \<open>Properties of the analysis of a vacancy\<close>

lemma analysis_failed_simps:
  "analysisResult (analysis_failed m s) = emptyData"
  "isEditing (analysis_failed m s) = True"
  "isAnalyzing (analysis_failed m s) = False"
  "error_shown (analysis_failed m s) = Some m"
  "editableData (analysis_failed m s) =
     \<lparr>title = JStr [], hard_skills = JArr [], soft_skills = JArr [], languages = JArr []\<rparr>"
  by (simp_all add: analysis_failed_def)

lemma extraction_fails_result:
  assumes "extraction_fails (fetch \<lparr>vacancy_url = trim url, user_id = userId\<rparr>)"
  shows "\<exists>m s'. analyzeJobVacancy fetch url userId s = (analysis_failed m s', [])"
proof (cases "fetch \<lparr>vacancy_url = trim url, user_id = userId\<rparr>")
  case (Rejected e)
  then show ?thesis
    by (simp add: analyzeJobVacancy_def) blast
next
  case (Resolved r)
  with assms have bad: "\<not> resp_ok r \<or> isl (resp_json r)"
    by (simp add: extraction_fails_def)
  show ?thesis
  proof (cases "resp_ok r")
    case False
    with Resolved show ?thesis
      by (cases "resp_text r") (simp_all add: analyzeJobVacancy_def, blast+)
  next
    case True
    with bad obtain e where "resp_json r = Inl e"
      by (cases "resp_json r") simp_all
    with True Resolved show ?thesis
      by (simp add: analyzeJobVacancy_def) blast
  qed
qed

text \<open>
  C7. Whenever the extraction call fails (it is rejected, the response is not ok, or
  the body does not parse), \<^verbatim>\<open>analyzeJobVacancy\<close> leaves as analysis result the empty
  vacancy, whose title, company and description are empty strings and whose three
  skill lists are empty arrays, with empty fields to edit, and switches editing on; it
  shows a message and is no longer analysing.
\<close>

theorem extraction_failure_degrades:
  assumes "extraction_fails (fetch \<lparr>vacancy_url = trim url, user_id = userId\<rparr>)"
  shows "analysisResult (fst (analyzeJobVacancy fetch url userId s)) = emptyData
         \<and> isEditing (fst (analyzeJobVacancy fetch url userId s))
         \<and> editableData (fst (analyzeJobVacancy fetch url userId s)) =
             \<lparr>title = JStr [], hard_skills = JArr [], soft_skills = JArr [],
              languages = JArr []\<rparr>
         \<and> error_shown (fst (analyzeJobVacancy fetch url userId s)) \<noteq> None
         \<and> \<not> isAnalyzing (fst (analyzeJobVacancy fetch url userId s))
         \<and> member_of emptyData ''job_title'' = JStr []
         \<and> member_of emptyData ''company_name'' = JStr []
         \<and> member_of emptyData ''description'' = JStr []
         \<and> member_of (member_of emptyData ''skills'') ''hard_skills'' = JArr []
         \<and> member_of (member_of emptyData ''skills'') ''soft_skills'' = JArr []
         \<and> member_of (member_of emptyData ''skills'') ''languages'' = JArr []"
proof -
  from extraction_fails_result
    [where fetch = fetch and url = url and userId = userId and s = s, OF assms]
  obtain m s' where "analyzeJobVacancy fetch url userId s = (analysis_failed m s', [])"
    by blast
  then show ?thesis
    by (simp add: analysis_failed_simps) (simp add: emptyData_def lookup_def)
qed

theorem extraction_failure_degrades_witness:
  "(extraction_fails (server_down \<lparr>vacancy_url = trim ''hh.ru/vacancy/1'', user_id = ''u1''\<rparr>)
    \<and> analysisResult (fst (analyzeJobVacancy server_down ''hh.ru/vacancy/1'' ''u1''
         idle_analysis)) = emptyData
    \<and> isEditing (fst (analyzeJobVacancy server_down ''hh.ru/vacancy/1'' ''u1'' idle_analysis)))
   \<and> (extraction_fails (no_network \<lparr>vacancy_url = trim ''hh.ru/vacancy/1'', user_id = ''u1''\<rparr>)
    \<and> analysisResult (fst (analyzeJobVacancy no_network ''hh.ru/vacancy/1'' ''u1''
         idle_analysis)) = emptyData
    \<and> isEditing (fst (analyzeJobVacancy no_network ''hh.ru/vacancy/1'' ''u1'' idle_analysis)))
   \<and> (extraction_fails (not_json \<lparr>vacancy_url = trim ''hh.ru/vacancy/1'', user_id = ''u1''\<rparr>)
    \<and> analysisResult (fst (analyzeJobVacancy not_json ''hh.ru/vacancy/1'' ''u1''
         idle_analysis)) = emptyData
    \<and> isEditing (fst (analyzeJobVacancy not_json ''hh.ru/vacancy/1'' ''u1'' idle_analysis)))"
proof -
  have a: "extraction_fails (server_down q)" "extraction_fails (no_network q)"
    "extraction_fails (not_json q)" for q
    by (simp_all add: extraction_fails_def server_down_def no_network_def not_json_def)
  from extraction_failure_degrades
      [where fetch = server_down and url = "''hh.ru/vacancy/1''" and userId = "''u1''"
        and s = idle_analysis, OF a(1)]
    extraction_failure_degrades
      [where fetch = no_network and url = "''hh.ru/vacancy/1''" and userId = "''u1''"
        and s = idle_analysis, OF a(2)]
    extraction_failure_degrades
      [where fetch = not_json and url = "''hh.ru/vacancy/1''" and userId = "''u1''"
        and s = idle_analysis, OF a(3)] a
  show ?thesis by simp
qed

section \<open>Properties of saving\<close>

lemma save_attempt_fails:
  "unauthenticated env \<or> request_fails env \<Longrightarrow> \<exists>m. save_attempt env d = Inl m"
  by (auto simp: save_attempt_def unauthenticated_def request_fails_def andThen_def
      split: sum.splits fetch_outcome.splits)

lemma drawn_error:
  "activeTab (final a) = LetterTab \<Longrightarrow> saveError (final a) \<noteq> None \<Longrightarrow>
   drawn a = Unmounted (Exn ''ReferenceError'' ''AlertTriangle is not defined'')"
  by (simp add: drawn_def render_FinalResults_def)

text \<open>
  C9. The code does not do what the claim says. After a save that fails while the tab
  of the letter is shown (an artifact or the user is absent, there is no session, the
  request is rejected or the response is not ok), the error that
  \<^verbatim>\<open>handleSaveGeneration\<close> records makes the component draw the icon it does not import;
  drawing throws, the application is unmounted, and the artifacts of the controller are
  gone with it.
\<close>

theorem failed_save_unmounts:
  assumes "save_fails env a" and "activeTab (final a) = LetterTab"
  shows "handleSaveGeneration env a =
           (Unmounted (Exn ''ReferenceError'' ''AlertTriangle is not defined''), False)"
proof (cases "artifacts_missing a")
  case True
  with assms(2) show ?thesis
    by (simp add: handleSaveGeneration_def artifacts_missing_def Let_def drawn_error)
next
  case False
  with assms(1) have "unauthenticated env \<or> request_fails env"
    by (simp add: save_fails_def)
  then obtain m where "save_attempt env (savedData (dash a)) = Inl m"
    using save_attempt_fails by blast
  with False assms(2) show ?thesis
    by (simp add: handleSaveGeneration_def artifacts_missing_def Let_def drawn_error
        render_FinalResults_def)
qed

theorem failed_save_unmounts_witness:
  "save_fails env_signed_out finished_app
   \<and> save_fails env_offline finished_app
   \<and> save_fails env_rejected finished_app
   \<and> save_fails env_rejected (finished_app\<lparr>user := None\<rparr>)
   \<and> activeTab (final finished_app) = LetterTab
   \<and> handleSaveGeneration env_signed_out finished_app =
       (Unmounted (Exn ''ReferenceError'' ''AlertTriangle is not defined''), False)
   \<and> handleSaveGeneration env_offline finished_app =
       (Unmounted (Exn ''ReferenceError'' ''AlertTriangle is not defined''), False)
   \<and> handleSaveGeneration env_rejected finished_app =
       (Unmounted (Exn ''ReferenceError'' ''AlertTriangle is not defined''), False)
   \<and> handleSaveGeneration env_rejected (finished_app\<lparr>user := None\<rparr>) =
       (Unmounted (Exn ''ReferenceError'' ''AlertTriangle is not defined''), False)"
proof -
  have f: "save_fails env_signed_out finished_app" "save_fails env_offline finished_app"
    "save_fails env_rejected finished_app"
    "save_fails env_rejected (finished_app\<lparr>user := None\<rparr>)"
    by (simp_all add: save_fails_def unauthenticated_def request_fails_def
        artifacts_missing_def env_signed_out_def env_offline_def env_rejected_def)
  have t: "activeTab (final finished_app) = LetterTab"
    "activeTab (final (finished_app\<lparr>user := None\<rparr>)) = LetterTab"
    by (simp_all add: finished_app_def)
  from failed_save_unmounts [OF f(1) t(1)] failed_save_unmounts [OF f(2) t(1)]
    failed_save_unmounts [OF f(3) t(1)] failed_save_unmounts [OF f(4) t(2)] f t
  show ?thesis by simp
qed

section \<open>Properties of the save-generation function\<close>

lemma typeof_string: "typeof v = ''string'' \<Longrightarrow> \<exists>s. v = JStr s"
  by (cases v) simp_all

lemma nonempty_string: "\<not> not_nonempty_string v \<Longrightarrow> \<exists>s. v = JStr s"
  by (auto simp: not_nonempty_string_def dest: typeof_string)

lemma title_accepted: "\<not> title_rejected v \<Longrightarrow> \<exists>s. v = JStr s"
  by (cases v) (simp_all add: title_rejected_def)

lemma if_singleton_Nil: "((if c then [e] else []) = []) \<longleftrightarrow> \<not> c"
  by simp

lemma in_if_singleton: "y \<in> set (if c then [e] else []) \<longleftrightarrow> c \<and> y = e"
  by auto

lemma validation_passes:
  assumes "validateGenerationData requestData = Inr []"
  shows "\<not> nullish requestData"
    and "\<exists>s. member_of requestData ''job_title'' = JStr s"
    and "\<exists>s. member_of requestData ''company_name'' = JStr s"
    and "\<exists>s. member_of requestData ''cover_letter_text'' = JStr s"
    and "member_of requestData ''title'' = JUndefined
         \<or> (\<exists>s. member_of requestData ''title'' = JStr s)"
proof -
  show n: "\<not> nullish requestData"
    using assms by (cases "nullish requestData") (simp_all add: validateGenerationData_def)
  from assms n have ok: "\<not> not_nonempty_string (member_of requestData ''job_title'')"
    "\<not> not_nonempty_string (member_of requestData ''company_name'')"
    "\<not> not_nonempty_string (member_of requestData ''cover_letter_text'')"
    "member_of requestData ''title'' = JUndefined
     \<or> \<not> title_rejected (member_of requestData ''title'')"
    by (simp_all add: validateGenerationData_def if_singleton_Nil)
  from ok(1) show "\<exists>s. member_of requestData ''job_title'' = JStr s"
    by (rule nonempty_string)
  from ok(2) show "\<exists>s. member_of requestData ''company_name'' = JStr s"
    by (rule nonempty_string)
  from ok(3) show "\<exists>s. member_of requestData ''cover_letter_text'' = JStr s"
    by (rule nonempty_string)
  from ok(4) show "member_of requestData ''title'' = JUndefined
      \<or> (\<exists>s. member_of requestData ''title'' = JStr s)"
    using title_accepted by blast
qed

lemma insertData_score:
  assumes "validateGenerationData requestData = Inr []"
  shows "\<exists>row. insertData uid requestData = Inr row
           \<and> member_of row ''overall_score'' =
               js_or (member_of requestData ''overall_score'') JNull"
proof -
  note v = validation_passes [OF assms]
  from v(2) obtain jt where jt: "member_of requestData ''job_title'' = JStr jt" ..
  from v(3) obtain cn where cn: "member_of requestData ''company_name'' = JStr cn" ..
  from v(4) obtain cl where cl: "member_of requestData ''cover_letter_text'' = JStr cl" ..
  from v(5) obtain t where t: "andThen (get requestData ''title'')
      (\<lambda>t. if nullish t then Inr JUndefined else call_trim t) = Inr t"
    using v(1)
    by (auto simp: get_def andThen_def nullish_def call_trim_def)
  show ?thesis
    using v(1) jt cn cl t
    by (simp add: insertData_def get_def andThen_def or_else_def call_trim_def js_or_def
        lookup_def)
qed

lemma serve_rows:
  assumes "reaches_validation env req supabase uid requestData"
  shows "snd (serve env req) = snd (store_generation supabase uid requestData)"
proof -
  from assms obtain supabaseUrl serviceRoleKey authHeader where
    e: "SUPABASE_URL env = Some supabaseUrl" "SUPABASE_SERVICE_ROLE_KEY env = Some serviceRoleKey"
      "supabaseUrl \<noteq> []" "serviceRoleKey \<noteq> []"
      "createClient env supabaseUrl serviceRoleKey = Inr supabase"
    and h: "req_authorization req = Some authHeader" "authHeader \<noteq> []"
      "getUser supabase (remove_first ''Bearer '' authHeader) =
         Inr \<lparr>reply_user = Some uid, userError = False\<rparr>"
    and r: "req_method req = ''POST''" "req_json req = Inr requestData"
    by (auto simp: reaches_validation_def split: option.splits)
  then show ?thesis
    by (simp add: serve_def split: prod.splits sum.splits)
qed

lemma store_rows:
  "validateGenerationData requestData = Inr [] \<Longrightarrow> insertData uid requestData = Inr row \<Longrightarrow>
   snd (store_generation supabase uid requestData) = [row]"
  by (simp add: store_generation_def split: sum.splits option.splits)

text \<open>
  C10. A request whose overall score is 0 passes the check of the score, and when the
  whole request passes the validation the row handed to the database has the overall
  score null; for a score above 0 and at most 100 the row has the score of the request.
\<close>

theorem zero_score_stored_as_null:
  assumes "reaches_validation env req supabase uid requestData"
    and "validateGenerationData requestData = Inr errors"
  shows "(member_of requestData ''overall_score'' = JNum 0 \<longrightarrow> ScoreOutOfRange \<notin> set errors)
         \<and> (member_of requestData ''overall_score'' = JNum 0 \<and> errors = [] \<longrightarrow>
               (\<exists>row. snd (serve env req) = [row]
                  \<and> member_of row ''overall_score'' = JNull))
         \<and> (member_of requestData ''overall_score'' = JNum x \<and> 0 < x \<and> x \<le> 100
               \<and> errors = [] \<longrightarrow>
               (\<exists>row. snd (serve env req) = [row]
                  \<and> member_of row ''overall_score'' = JNum x))"
proof (intro conjI impI)
  assume "member_of requestData ''overall_score'' = JNum 0"
  moreover from assms(2) have "\<not> nullish requestData"
    by (cases "nullish requestData") (simp_all add: validateGenerationData_def)
  ultimately show "ScoreOutOfRange \<notin> set errors"
    using assms(2)
    by (auto simp: validateGenerationData_def score_rejected_def in_if_singleton)
next
  assume a: "member_of requestData ''overall_score'' = JNum 0 \<and> errors = []"
  with assms(2) have v: "validateGenerationData requestData = Inr []"
    by simp
  from insertData_score [OF v, of uid] obtain row where
    row: "insertData uid requestData = Inr row"
      "member_of row ''overall_score'' = js_or (member_of requestData ''overall_score'') JNull"
    by blast
  from serve_rows [OF assms(1)] store_rows [OF v row(1)] row(2) a
  show "\<exists>row. snd (serve env req) = [row] \<and> member_of row ''overall_score'' = JNull"
    by (simp add: js_or_def)
next
  assume a: "member_of requestData ''overall_score'' = JNum x \<and> 0 < x \<and> x \<le> 100
      \<and> errors = []"
  with assms(2) have v: "validateGenerationData requestData = Inr []"
    by simp
  from insertData_score [OF v, of uid] obtain row where
    row: "insertData uid requestData = Inr row"
      "member_of row ''overall_score'' = js_or (member_of requestData ''overall_score'') JNull"
    by blast
  from serve_rows [OF assms(1)] store_rows [OF v row(1)] row(2) a
  show "\<exists>row. snd (serve env req) = [row] \<and> member_of row ''overall_score'' = JNum x"
    by (simp add: js_or_def)
qed

theorem zero_score_stored_as_null_witness:
  "reaches_validation sample_env (post (save_request (JNum 0))) sample_client ''u1''
     (save_request (JNum 0))
   \<and> validateGenerationData (save_request (JNum 0)) = Inr []
   \<and> (\<exists>row. snd (serve sample_env (post (save_request (JNum 0)))) = [row]
         \<and> member_of row ''overall_score'' = JNull)
   \<and> reaches_validation sample_env (post (save_request (JNum 71))) sample_client ''u1''
     (save_request (JNum 71))
   \<and> validateGenerationData (save_request (JNum 71)) = Inr []
   \<and> (\<exists>row. snd (serve sample_env (post (save_request (JNum 71)))) = [row]
         \<and> member_of row ''overall_score'' = JNum 71)"
proof -
  have v: "validateGenerationData (save_request s) = Inr []" if "s = JNum 0 \<or> s = JNum 71" for s
  proof -
    have "\<not> score_rejected s"
      using that by (auto simp: score_rejected_def)
    then show ?thesis
      by (simp add: validateGenerationData_def save_request_def nullish_def lookup_def
          not_nonempty_string_def not_an_object_def title_rejected_def
          allowedStatuses_def trim_def is_space_def)
  qed
  have m: "member_of (save_request s) ''overall_score'' = s" for s
    by (simp add: save_request_def lookup_def)
  have r: "reaches_validation sample_env (post d) sample_client ''u1'' d" for d
    by (simp add: reaches_validation_def sample_env_def post_def sample_client_def
        startsWith_def)
  from zero_score_stored_as_null
    [where env = sample_env and req = "post (save_request (JNum 0))"
      and supabase = sample_client and uid = "''u1''"
      and requestData = "save_request (JNum 0)" and errors = "[]" and x = 71, OF r] v m
  have "\<exists>row. snd (serve sample_env (post (save_request (JNum 0)))) = [row]
      \<and> member_of row ''overall_score'' = JNull"
    by simp
  moreover from zero_score_stored_as_null
    [where env = sample_env and req = "post (save_request (JNum 71))"
      and supabase = sample_client and uid = "''u1''"
      and requestData = "save_request (JNum 71)" and errors = "[]" and x = 71, OF r] v m
  have "\<exists>row. snd (serve sample_env (post (save_request (JNum 71)))) = [row]
      \<and> member_of row ''overall_score'' = JNum 71"
    by simp
  ultimately show ?thesis using v r by simp
qed

end
